theory Spec2Isabelle
  imports Complex_Main
begin

section \<open>Python strings\<close>

text \<open>
  A Python \<open>str\<close> is modelled as a HOL \<open>string\<close>: one \<open>char\<close> per code point, for the
  code points below 256 (ASCII and Latin-1). The functions below are the \<open>str\<close> methods
  that \<open>instrument_tool.py\<close> calls, as Python defines them on these code points.
  \<open>isspace\<close> lists the code points that \<open>strip()\<close> removes. \<open>upper\<close> maps the ASCII
  and the Latin-1 small letters to their capitals and the sharp s (0xDF) to \<open>SS\<close>;
  \<open>lower\<close> maps the capitals back. Two code points are left as they are by \<open>upper\<close>
  although Python changes them: the micro sign (0xB5) and the y with diaeresis (0xFF),
  whose capitals lie beyond code point 255, outside this string type.
\<close>

definition isspace :: "char \<Rightarrow> bool" where
  "isspace c \<longleftrightarrow> c \<in> set [CHR 0x09, CHR 0x0A, CHR 0x0B, CHR 0x0C, CHR 0x0D,
     CHR 0x1C, CHR 0x1D, CHR 0x1E, CHR 0x1F, CHR 0x20, CHR 0x85, CHR 0xA0]"

definition strip :: "string \<Rightarrow> string" where
  "strip s = rev (dropWhile isspace (rev (dropWhile isspace s)))"

definition strip_chars :: "string \<Rightarrow> string \<Rightarrow> string" where
  "strip_chars cs s =
     rev (dropWhile (\<lambda>c. c \<in> set cs) (rev (dropWhile (\<lambda>c. c \<in> set cs) s)))"

definition small_letters :: string where
  "small_letters = ''abcdefghijklmnopqrstuvwxyz'' @
     [CHR 0xE0, CHR 0xE1, CHR 0xE2, CHR 0xE3, CHR 0xE4, CHR 0xE5, CHR 0xE6, CHR 0xE7,
      CHR 0xE8, CHR 0xE9, CHR 0xEA, CHR 0xEB, CHR 0xEC, CHR 0xED, CHR 0xEE, CHR 0xEF,
      CHR 0xF0, CHR 0xF1, CHR 0xF2, CHR 0xF3, CHR 0xF4, CHR 0xF5, CHR 0xF6,
      CHR 0xF8, CHR 0xF9, CHR 0xFA, CHR 0xFB, CHR 0xFC, CHR 0xFD, CHR 0xFE]"

definition capital_letters :: string where
  "capital_letters = ''ABCDEFGHIJKLMNOPQRSTUVWXYZ'' @
     [CHR 0xC0, CHR 0xC1, CHR 0xC2, CHR 0xC3, CHR 0xC4, CHR 0xC5, CHR 0xC6, CHR 0xC7,
      CHR 0xC8, CHR 0xC9, CHR 0xCA, CHR 0xCB, CHR 0xCC, CHR 0xCD, CHR 0xCE, CHR 0xCF,
      CHR 0xD0, CHR 0xD1, CHR 0xD2, CHR 0xD3, CHR 0xD4, CHR 0xD5, CHR 0xD6,
      CHR 0xD8, CHR 0xD9, CHR 0xDA, CHR 0xDB, CHR 0xDC, CHR 0xDD, CHR 0xDE]"

definition to_upper :: "char \<Rightarrow> string" where
  "to_upper c =
     (if c = CHR 0xDF then ''SS''
      else (case map_of (zip small_letters capital_letters) c of
              Some u \<Rightarrow> [u]
            | None \<Rightarrow> [c]))"

definition to_lower :: "char \<Rightarrow> char" where
  "to_lower c =
     (case map_of (zip capital_letters small_letters) c of
        Some l \<Rightarrow> l
      | None \<Rightarrow> c)"

definition upper :: "string \<Rightarrow> string" where
  "upper s = concat (map to_upper s)"

definition lower :: "string \<Rightarrow> string" where
  "lower s = map to_lower s"

text \<open>\<open>s.split(sep)\<close> for a one-character separator: never empty, \<open>''''.split(sep) = ['''']\<close>.\<close>

fun split_on :: "char \<Rightarrow> string \<Rightarrow> string list" where
  "split_on sep [] = [[]]"
| "split_on sep (c # cs) =
     (if c = sep then [] # split_on sep cs
      else (case split_on sep cs of
              [] \<Rightarrow> [[c]]
            | p # ps \<Rightarrow> (c # p) # ps))"

text \<open>\<open>str(n)\<close> for a non-negative integer.\<close>

definition digit_char :: "nat \<Rightarrow> char" where
  "digit_char d = ''0123456789'' ! (d mod 10)"

fun str_nat :: "nat \<Rightarrow> string" where
  "str_nat n = (if n < 10 then [digit_char n] else str_nat (n div 10) @ [digit_char (n mod 10)])"

section \<open>Exceptions\<close>

text \<open>
  The subclasses of \<open>Exception\<close> that the console's handlers tell apart, each with the
  text of \<open>str(e)\<close>. \<open>OtherException\<close> is any other subclass of \<open>Exception\<close>.
\<close>

datatype exn =
    VisaIOError string
  | ValueError string
  | IndexError string
  | OSError string
  | OtherException string

fun exn_msg :: "exn \<Rightarrow> string" where
  "exn_msg (VisaIOError m) = m"
| "exn_msg (ValueError m) = m"
| "exn_msg (IndexError m) = m"
| "exn_msg (OSError m) = m"
| "exn_msg (OtherException m) = m"

text \<open>\<open>xs[i]\<close> for a constant index \<open>i \<ge> 0\<close>.\<close>

definition py_index :: "'a list \<Rightarrow> nat \<Rightarrow> exn + 'a" where
  "py_index xs i =
     (if i < length xs then Inr (xs ! i) else Inl (IndexError ''list index out of range''))"

section \<open>Python floats\<close>

text \<open>
  A Python \<open>float\<close> is an IEEE-754 double: a finite value, which is a rational number,
  a negative zero, an infinity or a NaN. \<open>Fin 0\<close> is the positive zero.

  The console is modelled for any float operations: \<open>float_ops\<close> holds the parser
  \<open>float(s)\<close> (\<open>None\<close> when it raises ValueError), the text of that ValueError, the
  multiplication, the subtraction, the conversion of a list index and \<open>repr\<close>. The
  general theorems hold for whatever these compute. The double arithmetic itself is
  defined below, for evaluating the console on concrete numbers.
\<close>

datatype pyfloat = Fin rat | NegZero | PosInf | NegInf | NaN

record float_ops =
  float_of_str :: "string \<Rightarrow> pyfloat option"
  float_error :: "string \<Rightarrow> string"
  fmul :: "pyfloat \<Rightarrow> pyfloat \<Rightarrow> pyfloat"
  fsub :: "pyfloat \<Rightarrow> pyfloat \<Rightarrow> pyfloat"
  float_of_nat :: "nat \<Rightarrow> pyfloat"
  float_repr :: "pyfloat \<Rightarrow> string"

subsection \<open>Rounding to a double\<close>

text \<open>
  \<open>double q\<close> is the double nearest to the rational \<open>q\<close>, ties going to the even
  significand: what a decimal literal denotes and what every arithmetic operation
  returns for the exact result \<open>q\<close>. A double has 53 significant bits; below
  \<open>2 ^ -1022\<close> the spacing stays \<open>2 ^ -1074\<close>; a result that rounds to \<open>2 ^ 1024\<close> or
  more is an infinity. \<open>binary_exponent q\<close> is the exponent of the leading bit of
  \<open>q > 0\<close>: with \<open>q = a / b\<close> in lowest terms, the difference of the bit lengths of
  \<open>a\<close> and \<open>b\<close>, or one less.
\<close>

fun bitlen :: "nat \<Rightarrow> nat" where
  "bitlen n = (if n = 0 then 0 else Suc (bitlen (n div 2)))"

definition pow2 :: "int \<Rightarrow> rat" where
  "pow2 e = (if 0 \<le> e then 2 ^ nat e else 1 / 2 ^ nat (- e))"

definition binary_exponent :: "rat \<Rightarrow> int" where
  "binary_exponent q =
     (let (a, b) = quotient_of q;
          d = int (bitlen (nat a)) - int (bitlen (nat b))
      in if pow2 d \<le> q then d else d - 1)"

definition round_half_even :: "rat \<Rightarrow> int" where
  "round_half_even x =
     (let f = \<lfloor>x\<rfloor>; r = x - of_int f
      in if r < 1 / 2 then f
         else if 1 / 2 < r then f + 1
         else if even f then f else f + 1)"

definition double :: "rat \<Rightarrow> pyfloat" where
  "double q =
     (if q = 0 then Fin 0
      else
        (let e = max (binary_exponent \<bar>q\<bar>) (- 1022);
             quantum = pow2 (e - 52);
             m = round_half_even (\<bar>q\<bar> / quantum);
             r = of_int m * quantum
         in if pow2 1024 \<le> r then (if q < 0 then NegInf else PosInf)
            else if m = 0 then (if q < 0 then NegZero else Fin 0)
            else Fin (if q < 0 then - r else r)))"

subsection \<open>Double arithmetic\<close>

fun is_nan :: "pyfloat \<Rightarrow> bool" where
  "is_nan NaN = True"
| "is_nan _ = False"

fun is_inf :: "pyfloat \<Rightarrow> bool" where
  "is_inf PosInf = True"
| "is_inf NegInf = True"
| "is_inf _ = False"

fun negative :: "pyfloat \<Rightarrow> bool" where
  "negative (Fin q) = (q < 0)"
| "negative NegZero = True"
| "negative NegInf = True"
| "negative _ = False"

text \<open>The value of a finite float; both zeros have the value 0.\<close>

fun finite_value :: "pyfloat \<Rightarrow> rat" where
  "finite_value (Fin q) = q"
| "finite_value _ = 0"

text \<open>
  \<open>x * y\<close>: NaN when an operand is NaN or an infinity meets a zero; otherwise the sign
  is negative exactly when the signs differ, an infinity stays an infinity, a zero stays
  a zero, and two finite non-zero operands give their rounded product.
\<close>

definition double_mul :: "pyfloat \<Rightarrow> pyfloat \<Rightarrow> pyfloat" where
  "double_mul x y =
     (if is_nan x \<or> is_nan y then NaN
      else if (is_inf x \<and> finite_value y = 0 \<and> \<not> is_inf y)
            \<or> (is_inf y \<and> finite_value x = 0 \<and> \<not> is_inf x) then NaN
      else if is_inf x \<or> is_inf y then (if negative x \<noteq> negative y then NegInf else PosInf)
      else if finite_value x = 0 \<or> finite_value y = 0
      then (if negative x \<noteq> negative y then NegZero else Fin 0)
      else double (finite_value x * finite_value y))"

text \<open>
  \<open>x - y\<close>: NaN when an operand is NaN or both are the same infinity; an infinite
  operand otherwise decides the result; two finite operands give their rounded
  difference, and a difference of exactly zero is the positive zero unless \<open>x\<close> is the
  negative zero and \<open>y\<close> the positive one.
\<close>

definition double_sub :: "pyfloat \<Rightarrow> pyfloat \<Rightarrow> pyfloat" where
  "double_sub x y =
     (if is_nan x \<or> is_nan y then NaN
      else if is_inf x \<and> is_inf y then (if x = y then NaN else x)
      else if is_inf x then x
      else if is_inf y then (if y = PosInf then NegInf else PosInf)
      else if finite_value x - finite_value y = 0
      then (if x = NegZero \<and> y \<noteq> NegZero then NegZero else Fin 0)
      else double (finite_value x - finite_value y))"

text \<open>
  \<open>float(i)\<close> for a list index \<open>i\<close>, as in \<open>i * X_INCrement\<close>. (Python raises
  OverflowError for an integer of \<open>2 ^ 1024\<close> or more, which no list index is.)
\<close>

definition double_of_nat :: "nat \<Rightarrow> pyfloat" where
  "double_of_nat n = double (of_nat n)"

text \<open>Any float operations, with the arithmetic of doubles.\<close>

definition with_doubles :: "float_ops \<Rightarrow> float_ops" where
  "with_doubles F = F\<lparr>fmul := double_mul, fsub := double_sub, float_of_nat := double_of_nat\<rparr>"

section \<open>Waveform decoding\<close>

text \<open>
  \<open>do_oscope_capture_data\<close>, step 3: the loop
  \<^verbatim>\<open>for i, raw_value in enumerate(raw_data)\<close> appends one pair per sample to
  \<open>processed_data\<close>. \<open>i\<close> is the running index, \<open>acc\<close> the list built so far.
\<close>

fun process_data ::
  "float_ops \<Rightarrow> pyfloat \<Rightarrow> pyfloat \<Rightarrow> pyfloat \<Rightarrow> nat \<Rightarrow> pyfloat list \<Rightarrow>
   (pyfloat \<times> pyfloat) list \<Rightarrow> (pyfloat \<times> pyfloat) list" where
  "process_data F X_INCrement Y_INCrement Y_Reference i [] acc = acc"
| "process_data F X_INCrement Y_INCrement Y_Reference i (raw_value # rest) acc =
     (let voltage = fmul F Y_INCrement (fsub F raw_value Y_Reference);
          time_sec = fmul F (float_of_nat F i) X_INCrement
      in process_data F X_INCrement Y_INCrement Y_Reference (Suc i) rest
           (acc @ [(time_sec, voltage)]))"

text \<open>
  The decoding step as a whole: the three reads of the preamble (each raises IndexError
  on a short preamble) and the loop over the raw samples.
\<close>

definition decode_waveform ::
  "float_ops \<Rightarrow> pyfloat list \<Rightarrow> pyfloat list \<Rightarrow> exn + (pyfloat \<times> pyfloat) list" where
  "decode_waveform F preamble raw_data =
     (case py_index preamble 5 of
        Inl e \<Rightarrow> Inl e
      | Inr X_INCrement \<Rightarrow>
          (case py_index preamble 7 of
             Inl e \<Rightarrow> Inl e
           | Inr Y_INCrement \<Rightarrow>
               (case py_index preamble 8 of
                  Inl e \<Rightarrow> Inl e
                | Inr Y_Reference \<Rightarrow>
                    Inr (process_data F X_INCrement Y_INCrement Y_Reference 0 raw_data []))))"

section \<open>The console, the VISA library and the file system\<close>

text \<open>
  \<open>console\<close> holds the three attributes of the class \<open>Console\<close> (\<open>rm\<close> is whether a
  ResourceManager could be created at import) and what the console has done to the
  outside world: the calls it made on the VISA library, the lines it printed and the
  files it wrote, each in order.
\<close>

type_synonym handle = nat

datatype call =
    ListResources
  | OpenResource string
  | Close handle
  | Timeout handle
  | Query handle string
  | Write handle string
  | QueryBinaryValues handle string

record console =
  rm :: bool
  instrument :: "handle option"
  selected_device_id :: "string option"
  calls :: "call list"
  printed :: "string list"
  files :: "(string \<times> string) list"

text \<open>
  \<open>env\<close> is everything the console does not decide: what each call on the VISA library
  returns or raises, given the calls made before it; whether a file can be opened for
  writing; whether the history file can be saved; the float operations; and \<open>repr\<close> of a
  list of strings.
\<close>

record env =
  on_list_resources :: "call list \<Rightarrow> exn + string list"
  on_open_resource :: "call list \<Rightarrow> string \<Rightarrow> exn + handle"
  on_close :: "call list \<Rightarrow> handle \<Rightarrow> exn + unit"
  on_timeout :: "call list \<Rightarrow> handle \<Rightarrow> exn + unit"
  on_query :: "call list \<Rightarrow> handle \<Rightarrow> string \<Rightarrow> exn + string"
  on_write :: "call list \<Rightarrow> handle \<Rightarrow> string \<Rightarrow> exn + unit"
  on_query_binary_values :: "call list \<Rightarrow> handle \<Rightarrow> string \<Rightarrow> exn + string"
  on_open_file :: "(string \<times> string) list \<Rightarrow> string \<Rightarrow> exn + unit"
  on_write_history_file :: "exn + unit"
  floats :: float_ops
  repr_list :: "string list \<Rightarrow> string"

subsection \<open>Statements that may raise\<close>

text \<open>
  A block of statements takes the console's state and returns the new state with either
  a value (\<open>Inr\<close>) or the exception raised (\<open>Inl\<close>). \<open>and_then\<close> and \<open>seq\<close> run one
  statement after another and stop at the first exception.
\<close>

type_synonym 'a py = "console \<Rightarrow> (exn + 'a) \<times> console"

definition pure :: "'a \<Rightarrow> 'a py" where
  "pure x = (\<lambda>s. (Inr x, s))"

definition raise :: "exn \<Rightarrow> 'a py" where
  "raise e = (\<lambda>s. (Inl e, s))"

definition and_then :: "'a py \<Rightarrow> ('a \<Rightarrow> 'b py) \<Rightarrow> 'b py" where
  "and_then m f = (\<lambda>s. case m s of (Inl e, s') \<Rightarrow> (Inl e, s') | (Inr x, s') \<Rightarrow> f x s')"

definition seq :: "unit py \<Rightarrow> 'b py \<Rightarrow> 'b py" where
  "seq m n = and_then m (\<lambda>_. n)"

definition lift :: "exn + 'a \<Rightarrow> 'a py" where
  "lift r = (\<lambda>s. (r, s))"

text \<open>
  \<open>try: body except C1 as e: h1 except C2 as e: h2\<close>: the first clause whose class the
  exception is an instance of handles it; with no such clause it propagates.
\<close>

datatype exn_class = ClsValueError | ClsVisaIOError | ClsException

fun isinstance :: "exn \<Rightarrow> exn_class \<Rightarrow> bool" where
  "isinstance e ClsException = True"
| "isinstance (ValueError m) ClsValueError = True"
| "isinstance (VisaIOError m) ClsVisaIOError = True"
| "isinstance e c = False"

fun handle_with :: "(exn_class \<times> (exn \<Rightarrow> 'a py)) list \<Rightarrow> exn \<Rightarrow> 'a py" where
  "handle_with [] e = raise e"
| "handle_with ((c, h) # hs) e = (if isinstance e c then h e else handle_with hs e)"

definition try_except :: "'a py \<Rightarrow> (exn_class \<times> (exn \<Rightarrow> 'a py)) list \<Rightarrow> 'a py" where
  "try_except body handlers =
     (\<lambda>s. case body s of (Inr x, s') \<Rightarrow> (Inr x, s') | (Inl e, s') \<Rightarrow> handle_with handlers e s')"

text \<open>\<open>except Exception: pass\<close>.\<close>

definition pass :: "(exn_class \<times> (exn \<Rightarrow> unit py)) list" where
  "pass = [(ClsException, \<lambda>e. pure ())]"

subsection \<open>Primitive statements\<close>

definition print :: "string \<Rightarrow> unit py" where
  "print line = (\<lambda>s. (Inr (), s\<lparr>printed := printed s @ [line]\<rparr>))"

definition set_instrument :: "handle option \<Rightarrow> unit py" where
  "set_instrument v = (\<lambda>s. (Inr (), s\<lparr>instrument := v\<rparr>))"

definition set_selected_device_id :: "string option \<Rightarrow> unit py" where
  "set_selected_device_id v = (\<lambda>s. (Inr (), s\<lparr>selected_device_id := v\<rparr>))"

text \<open>\<open>quoted x\<close> is \<open>x\<close> between single quotes.\<close>

definition quoted :: "string \<Rightarrow> string" where
  "quoted x = [CHR 0x27] @ x @ [CHR 0x27]"

text \<open>
  A method call on \<open>self.instrument\<close> reads the attribute when it is made; on \<open>None\<close>
  Python raises AttributeError, and nothing reaches the VISA library.
\<close>

definition on_instrument ::
  "(handle \<Rightarrow> call) \<Rightarrow> (call list \<Rightarrow> handle \<Rightarrow> exn + 'a) \<Rightarrow> string \<Rightarrow> 'a py" where
  "on_instrument c reply attr =
     (\<lambda>s. case instrument s of
             None \<Rightarrow>
               (Inl (OtherException
                  (quoted ''NoneType'' @ '' object has no attribute '' @ quoted attr)), s)
           | Some h \<Rightarrow> (reply (calls s) h, s\<lparr>calls := calls s @ [c h]\<rparr>))"

definition instr_query :: "env \<Rightarrow> string \<Rightarrow> string py" where
  "instr_query E message = on_instrument (\<lambda>h. Query h message) (\<lambda>cs h. on_query E cs h message) ''query''"

definition instr_write :: "env \<Rightarrow> string \<Rightarrow> unit py" where
  "instr_write E message = on_instrument (\<lambda>h. Write h message) (\<lambda>cs h. on_write E cs h message) ''write''"

definition instr_query_binary_values :: "env \<Rightarrow> string \<Rightarrow> string py" where
  "instr_query_binary_values E message =
     on_instrument (\<lambda>h. QueryBinaryValues h message)
       (\<lambda>cs h. on_query_binary_values E cs h message) ''query_binary_values''"

definition instr_close :: "env \<Rightarrow> unit py" where
  "instr_close E = on_instrument Close (on_close E) ''close''"

definition configure_timeout :: "env \<Rightarrow> unit py" where
  "configure_timeout E = on_instrument Timeout (on_timeout E) ''timeout''"

definition list_resources :: "env \<Rightarrow> string list py" where
  "list_resources E = (\<lambda>s. (on_list_resources E (calls s), s\<lparr>calls := calls s @ [ListResources]\<rparr>))"

definition open_resource :: "env \<Rightarrow> string \<Rightarrow> handle py" where
  "open_resource E resource_name =
     (\<lambda>s. (on_open_resource E (calls s) resource_name,
           s\<lparr>calls := calls s @ [OpenResource resource_name]\<rparr>))"

text \<open>
  \<open>with open(filename, mode) as f: f.write(content)\<close>: opening may raise; an opened
  file receives the whole content.
\<close>

definition write_file :: "env \<Rightarrow> string \<Rightarrow> string \<Rightarrow> unit py" where
  "write_file E filename content =
     (\<lambda>s. case on_open_file E (files s) filename of
             Inl e \<Rightarrow> (Inl e, s)
           | Inr _ \<Rightarrow> (Inr (), s\<lparr>files := files s @ [(filename, content)]\<rparr>))"

definition write_history_file :: "env \<Rightarrow> unit py" where
  "write_history_file E = lift (on_write_history_file E)"

text \<open>
  The first statement of every instrument command:
  \<^verbatim>\<open>if not self.instrument: print(message); return\<close>.
\<close>

definition require_instrument :: "string \<Rightarrow> unit py \<Rightarrow> unit py" where
  "require_instrument message body =
     (\<lambda>s. if instrument s = None then print message s else body s)"

text \<open>\<^verbatim>\<open>if self.instrument: body\<close>.\<close>

definition when_instrument :: "unit py \<Rightarrow> unit py" where
  "when_instrument body = (\<lambda>s. if instrument s \<noteq> None then body s else pure () s)"

text \<open>\<^verbatim>\<open>if not self.rm: print("ResourceManager not available."); return\<close>.\<close>

definition require_rm :: "unit py \<Rightarrow> unit py" where
  "require_rm body = (\<lambda>s. if \<not> rm s then print ''ResourceManager not available.'' s else body s)"

definition NO_DEVICE_HINT :: string where
  "NO_DEVICE_HINT = ''No device selected. Use 'deviceselect' first.''"

definition NO_DEVICE :: string where
  "NO_DEVICE = ''No device selected.''"

text \<open>\<open>except Exception as e: print(f"An unexpected error occurred: {e}")\<close>.\<close>

definition unexpected :: "exn_class \<times> (exn \<Rightarrow> unit py)" where
  "unexpected = (ClsException, \<lambda>e. print (''An unexpected error occurred: '' @ exn_msg e))"

definition on_visa :: "string \<Rightarrow> exn_class \<times> (exn \<Rightarrow> unit py)" where
  "on_visa prefix = (ClsVisaIOError, \<lambda>e. print (prefix @ exn_msg e))"

definition on_exception :: "string \<Rightarrow> exn_class \<times> (exn \<Rightarrow> unit py)" where
  "on_exception prefix = (ClsException, \<lambda>e. print (prefix @ exn_msg e))"

text \<open>\<^verbatim>\<open>for x in xs: print(f"{prefix}{x}")\<close>.\<close>

fun print_each :: "string \<Rightarrow> string list \<Rightarrow> unit py" where
  "print_each prefix [] = pure ()"
| "print_each prefix (x # xs) = seq (print (prefix @ x)) (print_each prefix xs)"

section \<open>Device management and generic SCPI commands\<close>

definition do_devicelist :: "env \<Rightarrow> string \<Rightarrow> unit py" where
  "do_devicelist E arg =
     require_rm
       (try_except
          (and_then (list_resources E) (\<lambda>devices.
             if devices \<noteq> []
             then seq (print ''Available VISA Resources:'') (print_each ''  '' devices)
             else print ''No VISA resources detected.''))
          [on_exception ''Error listing devices: ''])"

definition do_id :: "env \<Rightarrow> string \<Rightarrow> unit py" where
  "do_id E arg =
     require_instrument NO_DEVICE_HINT
       (try_except
          (and_then (instr_query E ''*IDN?'') (\<lambda>idn. print (''Instrument IDN: '' @ strip idn)))
          [on_visa ''Error querying *IDN?: '', unexpected])"

definition do_deviceselect :: "env \<Rightarrow> string \<Rightarrow> unit py" where
  "do_deviceselect E device_id =
     (if device_id = []
      then print ''Please provide a device ID. Use 'devicelist' to see options.''
      else require_rm
        (let device_id_clean = strip_chars ''\"'' (strip device_id) in
         try_except
           (seq (when_instrument
                   (seq (try_except (instr_close E) pass)
                        (seq (set_instrument None) (set_selected_device_id None))))
           (and_then (open_resource E device_id_clean) (\<lambda>h.
            seq (set_instrument (Some h))
           (seq (set_selected_device_id (Some device_id_clean))
           (seq (try_except (configure_timeout E) pass)
           (seq (print (''Successfully selected and connected to: '' @ device_id_clean))
                (try_except (do_id E []) pass)))))))
           [(ClsVisaIOError, \<lambda>e.
               seq (print (''Error connecting to device '' @ quoted device_id_clean
                            @ '': '' @ exn_msg e))
                 (seq (set_instrument None) (set_selected_device_id None))),
            unexpected]))"

definition do_deviceinfo :: "env \<Rightarrow> string \<Rightarrow> unit py" where
  "do_deviceinfo E device_id =
     (if device_id = [] then print ''Usage: deviceinfo \"device_id\"''
      else seq (print (''Device ID: '' @ strip_chars ''\"'' (strip device_id)))
             (print (''To get manufacturer/model, use 'deviceselect' then 'id' ''
                     @ ''(which queries *IDN?).'')))"

definition do_write :: "env \<Rightarrow> string \<Rightarrow> unit py" where
  "do_write E command =
     require_instrument NO_DEVICE_HINT
       (if command = [] then print ''Usage: write \"SCPI_CMD\"''
        else try_except
               (let cmd_str = strip_chars ''\"'' (strip command) in
                seq (instr_write E cmd_str) (print (''Sent: '' @ cmd_str)))
               [on_visa ''Error writing command: '', unexpected])"

definition do_query :: "env \<Rightarrow> string \<Rightarrow> unit py" where
  "do_query E command =
     require_instrument NO_DEVICE_HINT
       (if command = [] then print ''Usage: query \"SCPI_QUERY\"''
        else try_except
               (let cmd_str = strip_chars ''\"'' (strip command) in
                and_then (instr_query E cmd_str) (\<lambda>response. print (''Response: '' @ strip response)))
               [on_visa ''Error querying command: '', unexpected])"

definition do_reset :: "env \<Rightarrow> string \<Rightarrow> unit py" where
  "do_reset E arg =
     require_instrument NO_DEVICE_HINT
       (try_except
          (seq (instr_write E ''*RST'') (print ''Instrument reset command (*RST) sent.''))
          [on_visa ''Error resetting instrument: '', unexpected])"

definition do_wait_opc :: "env \<Rightarrow> string \<Rightarrow> unit py" where
  "do_wait_opc E arg =
     require_instrument NO_DEVICE_HINT
       (try_except
          (and_then (instr_query E ''*OPC?'') (\<lambda>_. print ''Operation Complete (*OPC?) verified.''))
          [on_visa ''Error waiting for OPC: '', unexpected])"

definition do_get_error :: "env \<Rightarrow> string \<Rightarrow> unit py" where
  "do_get_error E arg =
     require_instrument NO_DEVICE_HINT
       (try_except
          (and_then (instr_query E '':SYSTem:ERRor?'') (\<lambda>error.
             print (''Instrument Error: '' @ strip error)))
          [on_visa ''Error querying system error: '', unexpected])"

section \<open>DMM commands\<close>

definition do_dmm_func_set :: "env \<Rightarrow> string \<Rightarrow> unit py" where
  "do_dmm_func_set E func =
     require_instrument NO_DEVICE_HINT
       (if func = [] then print ''Usage: dmm_func_set \"FUNCTION\"''
        else try_except
               (let scpi_func = upper (strip_chars ''\"'' (strip func)) in
                seq (instr_write E ('':SENSe:FUNCtion \"'' @ scpi_func @ ''\"''))
                    (print (''DMM function set to: '' @ scpi_func)))
               [on_visa ''Error setting DMM function: '', unexpected])"

definition do_dmm_range_set :: "env \<Rightarrow> string \<Rightarrow> unit py" where
  "do_dmm_range_set E range_val =
     require_instrument NO_DEVICE_HINT
       (if range_val = [] then print ''Usage: dmm_range_set <range_value|AUTO>''
        else try_except
               (seq (instr_write E ('':SENSe:RANGe '' @ strip range_val))
                    (print (''DMM range set to: '' @ strip range_val)))
               [on_visa ''Error setting DMM range: '', unexpected])"

definition do_dmm_autoranging :: "env \<Rightarrow> string \<Rightarrow> unit py" where
  "do_dmm_autoranging E state =
     require_instrument NO_DEVICE
       (if state = [] then print ''Usage: dmm_autoranging <ON|OFF>''
        else try_except
               (let scpi_state = upper state in
                if scpi_state \<notin> set [''ON'', ''OFF'', ''1'', ''0'']
                then print ''Invalid state. Use ON or OFF.''
                else seq (instr_write E ('':SENSe:RANGe:AUTO '' @ scpi_state))
                         (print (''DMM auto-ranging set to: '' @ scpi_state)))
               [on_visa ''Error setting DMM auto-ranging: '', unexpected])"

definition do_dmm_delay_set :: "env \<Rightarrow> string \<Rightarrow> unit py" where
  "do_dmm_delay_set E delay =
     require_instrument NO_DEVICE
       (if delay = [] then print ''Usage: dmm_delay_set <seconds>''
        else try_except
               (seq (instr_write E ('':SENSe:DELay '' @ strip delay))
                    (print (''DMM measurement delay set to: '' @ strip delay @ '' s'')))
               [on_visa ''Error setting DMM delay: '', unexpected])"

definition do_dmm_resolution_set :: "env \<Rightarrow> string \<Rightarrow> unit py" where
  "do_dmm_resolution_set E resolution =
     require_instrument NO_DEVICE
       (if resolution = [] then print ''Usage: dmm_resolution_set <resolution>''
        else try_except
               (seq (instr_write E ('':SENSe:RESolution '' @ strip resolution))
                    (print (''DMM resolution set to: '' @ strip resolution)))
               [on_visa ''Error setting DMM resolution: '', unexpected])"

text \<open>
  The eight DMM measurement commands have one body: query a fixed SCPI command and print
  the stripped answer between a label and a unit.
  \<^verbatim>\<open>
  if not self.instrument: print("No device selected."); return
  try:
      measurement = self.instrument.query(scpi)
      print(f"{label}{measurement.strip()}{unit}")
  except pyvisa.errors.VisaIOError as e: print(f"{visa_error}{e}")
  except Exception as e: print(f"An unexpected error occurred: {e}")
  \<close>
\<close>

definition dmm_measure :: "env \<Rightarrow> string \<Rightarrow> string \<Rightarrow> string \<Rightarrow> string \<Rightarrow> unit py" where
  "dmm_measure E scpi label unit visa_error =
     require_instrument NO_DEVICE
       (try_except
          (and_then (instr_query E scpi) (\<lambda>measurement.
             print (label @ strip measurement @ unit)))
          [on_visa visa_error, unexpected])"

definition do_dmm_measure_dc_v :: "env \<Rightarrow> string \<Rightarrow> unit py" where
  "do_dmm_measure_dc_v E arg =
     dmm_measure E '':MEASure:VOLTage:DC?'' ''DC Voltage: '' '' V''
       ''Error measuring DC Voltage. Check instrument capability: ''"

definition do_dmm_measure_ac_v :: "env \<Rightarrow> string \<Rightarrow> unit py" where
  "do_dmm_measure_ac_v E arg =
     dmm_measure E '':MEASure:VOLTage:AC?'' ''AC Voltage (RMS): '' '' V''
       ''Error measuring AC Voltage. Check instrument capability: ''"

definition do_dmm_measure_dc_i :: "env \<Rightarrow> string \<Rightarrow> unit py" where
  "do_dmm_measure_dc_i E arg =
     dmm_measure E '':MEASure:CURRent:DC?'' ''DC Current: '' '' A''
       ''Error measuring DC Current. Check instrument capability: ''"

definition do_dmm_measure_ac_i :: "env \<Rightarrow> string \<Rightarrow> unit py" where
  "do_dmm_measure_ac_i E arg =
     dmm_measure E '':MEASure:CURRent:AC?'' ''AC Current (RMS): '' '' A''
       ''Error measuring AC Current. Check instrument capability: ''"

definition do_dmm_measure_continuity :: "env \<Rightarrow> string \<Rightarrow> unit py" where
  "do_dmm_measure_continuity E arg =
     dmm_measure E '':MEASure:CONTinuity?'' ''Continuity Resistance: '' '' Ohm''
       ''Error measuring continuity. Check instrument capability: ''"

definition do_dmm_measure_diode :: "env \<Rightarrow> string \<Rightarrow> unit py" where
  "do_dmm_measure_diode E arg =
     dmm_measure E '':MEASure:DIODe?'' ''Diode Forward Voltage: '' '' V''
       ''Error measuring diode forward voltage. Check instrument capability: ''"

definition do_dmm_measure2_resistance :: "env \<Rightarrow> string \<Rightarrow> unit py" where
  "do_dmm_measure2_resistance E arg =
     dmm_measure E '':MEASure:RESistance?'' ''Resistance: '' '' Ohm''
       ''Error measuring 2-wire Resistance. Check instrument capability: ''"

definition do_dmm_measure4_resistance :: "env \<Rightarrow> string \<Rightarrow> unit py" where
  "do_dmm_measure4_resistance E arg =
     dmm_measure E '':MEASure:FRESistance?'' ''4-Wire Resistance: '' '' Ohm''
       ''Error measuring 4-wire Resistance. Check instrument capability: ''"

section \<open>Composite arguments\<close>

text \<open>
  \<^verbatim>\<open>a, b = map(str.strip, x.split(','))\<close> and its three-name form: ValueError unless the
  split gives exactly as many parts as there are names. The text of the ValueError is the
  interpreter's.
\<close>

definition unpack_message :: "nat \<Rightarrow> nat \<Rightarrow> string" where
  "unpack_message expected got =
     (if got < expected
      then ''not enough values to unpack (expected '' @ str_nat expected @ '', got ''
           @ str_nat got @ '')''
      else ''too many values to unpack (expected '' @ str_nat expected @ '')'')"

definition unpack2 :: "string \<Rightarrow> (string \<times> string) py" where
  "unpack2 x =
     (case map strip (split_on (CHR '','') x) of
        [a, b] \<Rightarrow> pure (a, b)
      | parts \<Rightarrow> raise (ValueError (unpack_message 2 (length parts))))"

definition unpack3 :: "string \<Rightarrow> (string \<times> string \<times> string) py" where
  "unpack3 x =
     (case map strip (split_on (CHR '','') x) of
        [a, b, c] \<Rightarrow> pure (a, b, c)
      | parts \<Rightarrow> raise (ValueError (unpack_message 3 (length parts))))"

text \<open>\<open>except ValueError: print(message)\<close>.\<close>

definition on_value_error :: "string \<Rightarrow> exn_class \<times> (exn \<Rightarrow> unit py)" where
  "on_value_error message = (ClsValueError, \<lambda>e. print message)"

section \<open>Oscilloscope commands\<close>

definition do_oscope_set_timebase :: "env \<Rightarrow> string \<Rightarrow> unit py" where
  "do_oscope_set_timebase E sec_per_div =
     require_instrument NO_DEVICE
       (if sec_per_div = [] then print ''Usage: oscope_set_timebase <seconds_per_div>''
        else try_except
               (seq (instr_write E ('':HORizontal:SCAle '' @ sec_per_div))
                    (print (''Oscilloscope timebase set to: '' @ sec_per_div @ '' s/div'')))
               [on_visa ''Error setting timebase: '', unexpected])"

definition do_oscope_set_vertscale :: "env \<Rightarrow> string \<Rightarrow> unit py" where
  "do_oscope_set_vertscale E channel_volt_per_div =
     require_instrument NO_DEVICE
       (if channel_volt_per_div = []
        then print ''Usage: oscope_set_vertscale <channel>,<volts_per_div>''
        else try_except
               (and_then (unpack2 channel_volt_per_div) (\<lambda>(channel, volts_per_div).
                  seq (instr_write E ('':CHANnel'' @ channel @ '':SCAle '' @ volts_per_div))
                      (print (''Oscilloscope Channel '' @ channel @ '' scale set to: ''
                              @ volts_per_div @ '' V/div''))))
               [on_value_error ''Invalid format. Use: <channel>,<volts_per_div> (e.g., 1,0.5)'',
                on_visa ''Error setting vertical scale: '', unexpected])"

definition do_oscope_measure_param :: "env \<Rightarrow> string \<Rightarrow> unit py" where
  "do_oscope_measure_param E channel_parameter =
     require_instrument NO_DEVICE
       (if channel_parameter = []
        then print ''Usage: oscope_measure_param <channel>,<parameter>''
        else try_except
               (and_then (unpack2 channel_parameter) (\<lambda>(channel, parameter).
                  let parameter_scpi = upper parameter;
                      raw_query = '':MEASure:'' @ parameter_scpi @ ''? CHANnel'' @ channel
                  in and_then (instr_query E raw_query) (\<lambda>measurement.
                       print (''Channel '' @ channel @ '' '' @ parameter_scpi @ '': ''
                              @ strip measurement))))
               [on_value_error ''Invalid format. Use: <channel>,<parameter> (e.g., 1,FREQ)'',
                (ClsVisaIOError, \<lambda>e.
                   print (''Error reading measurement: '' @ exn_msg e
                          @ ''. Check if this measurement is supported.'')),
                unexpected])"

definition do_oscope_set_trigger_source :: "env \<Rightarrow> string \<Rightarrow> unit py" where
  "do_oscope_set_trigger_source E source =
     require_instrument NO_DEVICE
       (if source = [] then print ''Usage: oscope_set_trigger_source <source>''
        else try_except
               (seq (instr_write E ('':TRIGger:SOURce '' @ upper source))
                    (print (''Oscilloscope trigger source set to: '' @ upper source)))
               [on_visa ''Error setting trigger source: '', unexpected])"

definition do_oscope_set_trigger_level :: "env \<Rightarrow> string \<Rightarrow> unit py" where
  "do_oscope_set_trigger_level E channel_level =
     require_instrument NO_DEVICE
       (if channel_level = []
        then print ''Usage: oscope_set_trigger_level <channel>,<voltage>''
        else try_except
               (and_then (unpack2 channel_level) (\<lambda>(channel, level).
                  seq (instr_write E ('':TRIGger:LEVel '' @ level))
                      (print (''Oscilloscope trigger level set to: '' @ level
                              @ '' V (Assumed for Channel '' @ channel @ '' source)''))))
               [on_value_error ''Invalid format. Use: <channel>,<voltage> (e.g., 1,0.5)'',
                on_visa ''Error setting trigger level: '', unexpected])"

definition do_oscope_set_trigger_slope :: "env \<Rightarrow> string \<Rightarrow> unit py" where
  "do_oscope_set_trigger_slope E channel_slope =
     require_instrument NO_DEVICE
       (if channel_slope = []
        then print ''Usage: oscope_set_trigger_slope <channel>,<POS|NEG|EITH>''
        else try_except
               (and_then (unpack2 channel_slope) (\<lambda>(channel, slope).
                  let scpi_slope = upper slope in
                  if scpi_slope \<notin> set [''POS'', ''NEG'', ''EITH'']
                  then print ''Invalid slope. Use POS, NEG, or EITH.''
                  else seq (instr_write E ('':TRIGger:EDGE:SLOpe '' @ scpi_slope))
                           (print (''Oscilloscope trigger slope set to: '' @ scpi_slope
                                   @ '' (Assumed for Channel '' @ channel @ '' source)''))))
               [on_value_error
                  ''Invalid format. Use: <channel>,<POS|NEG|EITH> (e.g., 1,POS)'',
                on_visa ''Error setting trigger slope: '', unexpected])"

definition do_oscope_get_setup :: "env \<Rightarrow> string \<Rightarrow> unit py" where
  "do_oscope_get_setup E arg =
     require_instrument NO_DEVICE
       (try_except
          (and_then (instr_query E '':SETup?'') (\<lambda>setup.
             print (''Oscilloscope Setup String (truncated to 200 chars): ''
                    @ take 200 (strip setup) @ ''...'')))
          [on_visa ''Error getting setup. Check instrument capability: '', unexpected])"

definition do_oscope_run :: "env \<Rightarrow> string \<Rightarrow> unit py" where
  "do_oscope_run E arg =
     require_instrument NO_DEVICE
       (try_except
          (seq (instr_write E '':RUN'') (print ''Oscilloscope set to RUN mode.''))
          [on_visa ''Error setting RUN mode: '', unexpected])"

subsection \<open>Screen capture\<close>

text \<open>\<open>filename.split('.')[-1].upper()\<close>: the last of the parts, which always exists.\<close>

definition extension_of :: "string \<Rightarrow> string" where
  "extension_of filename = upper (last (split_on (CHR ''.'') filename))"

definition do_oscope_screen_capture :: "env \<Rightarrow> string \<Rightarrow> unit py" where
  "do_oscope_screen_capture E filename_format =
     require_instrument NO_DEVICE
       (if filename_format = []
        then print ''Usage: oscope_screen_capture <filename.png|filename.jpeg>''
        else try_except
               (let filename = strip filename_format;
                    extension = extension_of filename
                in if extension \<in> set [''PNG'', ''JPEG'', ''JPG'']
                   then (let scpi_format = extension;
                             SCPI_COMMAND = '':DISPlay:DATA? '' @ scpi_format
                         in seq (print (''Requesting scope screen data ('' @ scpi_format
                                        @ '')...''))
                           (and_then (instr_query_binary_values E SCPI_COMMAND) (\<lambda>image_data.
                              if image_data = []
                              then print ''Error: Received no image data from the instrument.''
                              else seq (write_file E filename image_data)
                                     (print (''Scope screen capture successfully saved to: ''
                                             @ filename)))))
                   else print ''Unsupported format for screen capture. Use PNG or JPEG/JPG.'')
               [(ClsVisaIOError, \<lambda>e.
                   seq (print (''Error communicating with instrument: '' @ exn_msg e))
                       (print (''HINT: Ensure the waveform source is set via ''
                               @ quoted ''oscope_set_wfm_source'' @ ''.''))),
                unexpected])"

subsection \<open>Waveform capture\<close>

text \<open>
  \<open>list(map(float, s.strip().split(',')))\<close>: the first part that \<open>float\<close> rejects
  raises ValueError, with the text \<open>float\<close> gives it.
\<close>

fun floats_of :: "float_ops \<Rightarrow> string list \<Rightarrow> exn + pyfloat list" where
  "floats_of F [] = Inr []"
| "floats_of F (part # parts) =
     (case float_of_str F part of
        None \<Rightarrow> Inl (ValueError (float_error F part))
      | Some x \<Rightarrow> (case floats_of F parts of Inl e \<Rightarrow> Inl e | Inr xs \<Rightarrow> Inr (x # xs)))"

definition parse_floats :: "float_ops \<Rightarrow> string \<Rightarrow> exn + pyfloat list" where
  "parse_floats F s = floats_of F (split_on (CHR '','') (strip s))"

text \<open>
  \<open>format(x, '.6e')\<close>. A finite non-zero value is rounded, half to even, to one digit
  before the decimal point and six after it; the exponent has its sign and at least two
  digits. \<open>decimal_exponent q\<close> is the exponent of the leading digit of \<open>q > 0\<close>: with
  \<open>q = a / b\<close> in lowest terms it is the difference of the numbers of digits of \<open>a\<close> and
  \<open>b\<close>, or one less.
\<close>

definition pow10 :: "int \<Rightarrow> rat" where
  "pow10 e = (if 0 \<le> e then 10 ^ nat e else 1 / 10 ^ nat (- e))"

definition decimal_exponent :: "rat \<Rightarrow> int" where
  "decimal_exponent q =
     (let (a, b) = quotient_of q;
          d = int (length (str_nat (nat a))) - int (length (str_nat (nat b)))
      in if pow10 d \<le> q then d else d - 1)"

definition zero_pad :: "nat \<Rightarrow> string \<Rightarrow> string" where
  "zero_pad width s = replicate (width - length s) (CHR ''0'') @ s"

definition format_exponent :: "int \<Rightarrow> string" where
  "format_exponent e = (if e < 0 then ''-'' else ''+'') @ zero_pad 2 (str_nat (nat \<bar>e\<bar>))"

definition format_magnitude_e6 :: "rat \<Rightarrow> string" where
  "format_magnitude_e6 q =
     (if q = 0 then ''0.000000e+00''
      else
        (let e0 = decimal_exponent q;
             m0 = round_half_even (q * pow10 (6 - e0));
             (m, e) = (if m0 = 10 ^ 7 then (10 ^ 6, e0 + 1) else (m0, e0))
         in [digit_char (nat m div 10 ^ 6)] @ ''.''
            @ map (\<lambda>k. digit_char (nat m div 10 ^ k)) [5, 4, 3, 2, 1, 0]
            @ ''e'' @ format_exponent e))"

fun format_e6 :: "pyfloat \<Rightarrow> string" where
  "format_e6 (Fin q) = (if q < 0 then ''-'' else []) @ format_magnitude_e6 \<bar>q\<bar>"
| "format_e6 NegZero = ''-0.000000e+00''"
| "format_e6 PosInf = ''inf''"
| "format_e6 NegInf = ''-inf''"
| "format_e6 NaN = ''nan''"

text \<open>
  Step 4 for a \<open>.txt\<close> name: the header, then one \<open>f.write\<close> per pair. \<open>content\<close> is
  what has been written so far.
\<close>

fun write_txt_rows :: "(pyfloat \<times> pyfloat) list \<Rightarrow> string \<Rightarrow> string" where
  "write_txt_rows [] content = content"
| "write_txt_rows ((t, v) # rest) content =
     write_txt_rows rest (content @ format_e6 t @ [CHR 0x09] @ format_e6 v @ [CHR 0x0A])"

definition txt_content :: "(pyfloat \<times> pyfloat) list \<Rightarrow> string" where
  "txt_content processed_data =
     write_txt_rows processed_data (''Time (s)'' @ [CHR 0x09] @ ''Voltage (V)'' @ [CHR 0x0A])"

text \<open>
  Step 4 for a \<open>.csv\<close> name: \<open>csv.writer\<close> with its default dialect joins the fields of
  a row with a comma and ends the row with CR LF; it writes a float as its \<open>repr\<close>. No
  field here needs quoting: the header fields and the \<open>repr\<close> of a float hold no comma,
  quote, CR or LF.
\<close>

definition csv_row :: "string list \<Rightarrow> string" where
  "csv_row row =
     (case row of
        [] \<Rightarrow> []
      | f # fs \<Rightarrow> f @ concat (map (\<lambda>g. '','' @ g) fs)) @ [CHR 0x0D, CHR 0x0A]"

fun write_csv_rows :: "float_ops \<Rightarrow> (pyfloat \<times> pyfloat) list \<Rightarrow> string \<Rightarrow> string" where
  "write_csv_rows F [] content = content"
| "write_csv_rows F ((t, v) # rest) content =
     write_csv_rows F rest (content @ csv_row [float_repr F t, float_repr F v])"

definition csv_content :: "float_ops \<Rightarrow> (pyfloat \<times> pyfloat) list \<Rightarrow> string" where
  "csv_content F processed_data =
     write_csv_rows F processed_data (csv_row [''Time (s)'', ''Voltage (V)''])"

definition do_oscope_capture_data :: "env \<Rightarrow> string \<Rightarrow> unit py" where
  "do_oscope_capture_data E filename_format =
     require_instrument NO_DEVICE
       (if filename_format = []
        then print ''Usage: oscope_capture_data <filename.csv|filename.txt>''
        else try_except
               (let filename = strip filename_format;
                    extension = extension_of filename
                in if extension \<notin> set [''CSV'', ''TXT'']
                   then print ''Unsupported format for data capture. Use CSV or TXT.''
                   else
                     and_then (instr_query E '':WAVeform:PREamble?'') (\<lambda>preamble_str.
                     and_then (lift (parse_floats (floats E) preamble_str)) (\<lambda>preamble.
                     and_then (lift (py_index preamble 5)) (\<lambda>X_INCrement.
                     and_then (lift (py_index preamble 7)) (\<lambda>Y_INCrement.
                     and_then (lift (py_index preamble 8)) (\<lambda>Y_Reference.
                     seq (instr_write E '':WAVeform:FORMat ASCii'')
                    (and_then (instr_query E '':WAVeform:DATA?'') (\<lambda>raw_data_str.
                     and_then (lift (parse_floats (floats E) raw_data_str)) (\<lambda>raw_data.
                     let processed_data =
                           process_data (floats E) X_INCrement Y_INCrement Y_Reference 0
                             raw_data []
                     in seq (if extension = ''CSV''
                             then write_file E filename (csv_content (floats E) processed_data)
                             else if extension = ''TXT''
                             then write_file E filename (txt_content processed_data)
                             else pure ())
                            (print (''Waveform data successfully processed and saved to: ''
                                    @ filename @ '' ('' @ str_nat (length raw_data)
                                    @ '' points).'')))))))))))
               [(ClsVisaIOError, \<lambda>e.
                   seq (print (''Error communicating with instrument: '' @ exn_msg e))
                       (print ''HINT: Ensure the instrument is ready and the waveform source is set.'')),
                on_exception ''An unexpected error occurred during data processing: ''])"

section \<open>Function generator and power supply commands\<close>

definition do_afg_set_wave :: "env \<Rightarrow> string \<Rightarrow> unit py" where
  "do_afg_set_wave E args =
     require_instrument NO_DEVICE
       (if args = [] then print ''Usage: afg_set_wave \"WAVE, FREQ, AMPL\"''
        else try_except
               (and_then (unpack3 args) (\<lambda>(waveform, freq, ampl).
                  seq (instr_write E ('':FUNCtion '' @ upper waveform))
                 (seq (instr_write E ('':FREQuency '' @ freq))
                 (seq (instr_write E ('':VOLTage '' @ ampl))
                      (print (''AFG set to '' @ upper waveform @ '' wave, '' @ freq @ '' Hz, ''
                              @ ampl @ '' Vpp''))))))
               [on_value_error
                  ''Invalid format. Use: afg_set_wave \"WAVE,FREQ,AMPL\" (e.g., SIN,1000,1.0)'',
                on_visa ''Error setting waveform: '',
                on_exception ''Unexpected error: ''])"

definition do_afg_output_on :: "env \<Rightarrow> string \<Rightarrow> unit py" where
  "do_afg_output_on E arg =
     require_instrument NO_DEVICE
       (try_except
          (seq (instr_write E '':OUTPut ON'') (print ''AFG output turned ON.''))
          [on_exception ''Error enabling output: ''])"

definition do_afg_output_off :: "env \<Rightarrow> string \<Rightarrow> unit py" where
  "do_afg_output_off E arg =
     require_instrument NO_DEVICE
       (try_except
          (seq (instr_write E '':OUTPut OFF'') (print ''AFG output turned OFF.''))
          [on_exception ''Error disabling output: ''])"

definition do_afg_psu_slew_set :: "env \<Rightarrow> string \<Rightarrow> unit py" where
  "do_afg_psu_slew_set E channel_rate =
     require_instrument NO_DEVICE
       (if channel_rate = [] then print ''Usage: afg_psu_slew_set <rate_V_per_s>''
        else try_except
               (if CHR '','' \<in> set channel_rate
                then and_then (unpack2 channel_rate) (\<lambda>(channel, rate).
                       seq (instr_write E ('':VOLTage:SLEW:RATE '' @ rate))
                           (print (''Slew rate set to '' @ rate @ '' V/s (Assuming Channel ''
                                   @ channel @ '' or single output).'')))
                else (let rate = strip channel_rate in
                      seq (instr_write E ('':VOLTage:SLEW:RATE '' @ rate))
                          (print (''Slew rate set to '' @ rate @ '' V/s.''))))
               [on_exception
                  ''Error setting slew rate. Command likely unsupported by instrument: ''])"

definition do_psu_set_voltage :: "env \<Rightarrow> string \<Rightarrow> unit py" where
  "do_psu_set_voltage E voltage =
     require_instrument NO_DEVICE
       (if voltage = [] then print ''Usage: psu_set_voltage <voltage>''
        else try_except
               (seq (instr_write E ('':VOLTage '' @ voltage))
                    (print (''Voltage set to '' @ voltage @ '' V'')))
               [on_exception ''Error setting voltage: ''])"

definition do_psu_set_current :: "env \<Rightarrow> string \<Rightarrow> unit py" where
  "do_psu_set_current E current =
     require_instrument NO_DEVICE
       (if current = [] then print ''Usage: psu_set_current <current>''
        else try_except
               (seq (instr_write E ('':CURRent '' @ current))
                    (print (''Current limit set to '' @ current @ '' A'')))
               [on_exception ''Error setting current: ''])"

definition do_psu_output_on :: "env \<Rightarrow> string \<Rightarrow> unit py" where
  "do_psu_output_on E arg =
     require_instrument NO_DEVICE
       (try_except
          (seq (instr_write E '':OUTPut ON'') (print ''Power supply output ON.''))
          [on_exception ''Error enabling PSU output: ''])"

definition do_psu_output_off :: "env \<Rightarrow> string \<Rightarrow> unit py" where
  "do_psu_output_off E arg =
     require_instrument NO_DEVICE
       (try_except
          (seq (instr_write E '':OUTPut OFF'') (print ''Power supply output OFF.''))
          [on_exception ''Error disabling PSU output: ''])"

definition do_psu_set_ovp :: "env \<Rightarrow> string \<Rightarrow> unit py" where
  "do_psu_set_ovp E voltage =
     require_instrument NO_DEVICE
       (if voltage = [] then print ''Usage: psu_set_ovp <voltage>''
        else try_except
               (seq (instr_write E ('':VOLTage:PROTection:LEVel '' @ voltage))
                    (print (''OVP set to '' @ voltage @ '' V'')))
               [on_exception ''Error setting OVP: ''])"

definition do_psu_set_ocp :: "env \<Rightarrow> string \<Rightarrow> unit py" where
  "do_psu_set_ocp E current =
     require_instrument NO_DEVICE
       (if current = [] then print ''Usage: psu_set_ocp <current>''
        else try_except
               (seq (instr_write E ('':CURRent:PROTection:LEVel '' @ current))
                    (print (''OCP set to '' @ current @ '' A'')))
               [on_exception ''Error setting OCP: ''])"

text \<open>The degree sign of the message of \<open>do_psu_set_otp\<close> is the code point 0xB0.\<close>

definition do_psu_set_otp :: "env \<Rightarrow> string \<Rightarrow> unit py" where
  "do_psu_set_otp E temperature =
     require_instrument NO_DEVICE
       (if temperature = [] then print ''Usage: psu_set_otp <temperature>''
        else try_except
               (seq (instr_write E ('':SENSe:TEMPerature:PROTection:LEVel '' @ temperature))
                    (print (''OTP level set to '' @ temperature @ '' '' @ [CHR 0xB0] @ ''C.'')))
               [on_exception
                  ''Error setting OTP. Command may be unsupported by instrument: ''])"

definition do_psu_measure_output :: "env \<Rightarrow> string \<Rightarrow> unit py" where
  "do_psu_measure_output E measure_type0 =
     require_instrument NO_DEVICE
       (let measure_type = upper (strip measure_type0) in
        if measure_type \<notin> set [''VOLT'', ''CURR'']
        then print ''Usage: psu_measure_output <VOLT|CURR>''
        else try_except
               (and_then (instr_query E ('':MEASure:'' @ measure_type @ ''?'')) (\<lambda>measurement.
                  let unit = (if measure_type = ''VOLT'' then ''V'' else ''A'') in
                  print (''Output '' @ measure_type @ '': '' @ strip measurement @ '' '' @ unit)))
               [on_exception (''Error measuring output '' @ measure_type @ '': '')])"

definition do_psu_protection_clear :: "env \<Rightarrow> string \<Rightarrow> unit py" where
  "do_psu_protection_clear E arg =
     require_instrument NO_DEVICE
       (try_except
          (seq (instr_write E ''*CLS'')
               (print ''PSU protection trip state cleared (*CLS sent).''))
          [on_exception ''Error clearing protection state: ''])"

section \<open>Spectrum analyzer and network analyzer commands\<close>

definition do_rf_set_center_freq :: "env \<Rightarrow> string \<Rightarrow> unit py" where
  "do_rf_set_center_freq E frequency =
     require_instrument NO_DEVICE
       (if frequency = [] then print ''Usage: rf_set_center_freq <frequency>''
        else try_except
               (seq (instr_write E ('':SENSe:FREQuency:CENTer '' @ frequency))
                    (print (''Center frequency set to: '' @ frequency)))
               [on_visa ''Error setting center frequency: '', unexpected])"

definition do_rf_set_span :: "env \<Rightarrow> string \<Rightarrow> unit py" where
  "do_rf_set_span E span0 =
     require_instrument NO_DEVICE
       (if span0 = [] then print ''Usage: rf_set_span <span_frequency>''
        else try_except
               (seq (instr_write E ('':SENSe:FREQuency:SPAN '' @ span0))
                    (print (''Span set to: '' @ span0)))
               [on_visa ''Error setting span: '', unexpected])"

definition do_rf_set_power :: "env \<Rightarrow> string \<Rightarrow> unit py" where
  "do_rf_set_power E power_level =
     require_instrument NO_DEVICE
       (if power_level = [] then print ''Usage: rf_set_power <power_level>''
        else try_except
               (seq (instr_write E ('':SOURce:POWer:LEVel '' @ power_level))
                    (print (''RF Power/Ref Level set to: '' @ power_level)))
               [on_visa ''Error setting RF power level: '', unexpected])"

definition do_sa_set_rbw_vbw :: "env \<Rightarrow> string \<Rightarrow> unit py" where
  "do_sa_set_rbw_vbw E bandwidths =
     require_instrument NO_DEVICE
       (if bandwidths = [] then print ''Usage: sa_set_rbw_vbw <rbw>,<vbw>''
        else try_except
               (and_then (unpack2 bandwidths) (\<lambda>(rbw, vbw).
                  seq (instr_write E ('':SENSe:BANDwidth:RESolution '' @ rbw))
                 (seq (instr_write E ('':SENSe:BANDwidth:VIDeo '' @ vbw))
                      (print (''RBW set to '' @ rbw @ '', VBW set to '' @ vbw)))))
               [on_value_error ''Invalid format. Use: <rbw>,<vbw> (e.g., 10kHz,3kHz)'',
                on_visa ''Error setting bandwidths: '',
                on_exception ''Unexpected error: ''])"

definition do_sa_read_marker :: "env \<Rightarrow> string \<Rightarrow> unit py" where
  "do_sa_read_marker E marker_number =
     require_instrument NO_DEVICE
       (if marker_number = [] then print ''Usage: sa_read_marker <marker_number>''
        else try_except
               (let mkr = strip marker_number in
                and_then (instr_query E ('':CALCulate:MARKer'' @ mkr @ '':X?'')) (\<lambda>freq.
                and_then (instr_query E ('':CALCulate:MARKer'' @ mkr @ '':Y?'')) (\<lambda>amp.
                  print (''Marker '' @ mkr @ '': Frequency = '' @ strip freq
                         @ '' Hz, Amplitude = '' @ strip amp @ '' dBm''))))
               [on_visa ''Error reading marker: '', unexpected])"

definition do_vna_set_sweep :: "env \<Rightarrow> string \<Rightarrow> unit py" where
  "do_vna_set_sweep E start_stop_points =
     require_instrument NO_DEVICE
       (if start_stop_points = []
        then print ''Usage: vna_set_sweep <start_freq>,<stop_freq>,<points>''
        else try_except
               (and_then (unpack3 start_stop_points) (\<lambda>(start, stop, points).
                  seq (instr_write E ('':SENSe:FREQuency:STARt '' @ start))
                 (seq (instr_write E ('':SENSe:FREQuency:STOP '' @ stop))
                 (seq (instr_write E ('':SENSe:SWEep:POINts '' @ points))
                      (print (''VNA sweep set: '' @ start @ '' to '' @ stop @ '', '' @ points
                              @ '' points.''))))))
               [on_value_error
                  (''Invalid format. Use: <start_freq>,<stop_freq>,<points> ''
                   @ ''(e.g., 1GHz,2GHz,201)''),
                on_visa ''Error setting VNA sweep parameters: '',
                on_exception ''Unexpected error: ''])"

definition do_vna_measure_sparam :: "env \<Rightarrow> string \<Rightarrow> unit py" where
  "do_vna_measure_sparam E sparam_format =
     require_instrument NO_DEVICE
       (if sparam_format = [] then print ''Usage: vna_measure_sparam <sparam>,<format>''
        else try_except
               (and_then (unpack2 sparam_format) (\<lambda>(sparam, dformat).
                  let sparam_scpi = upper sparam;
                      dformat_scpi = upper dformat
                  in seq (instr_write E ('':CALCulate:PARameter:DEFine \"Trc1_'' @ sparam_scpi
                                         @ ''\",'' @ sparam_scpi))
                    (seq (instr_write E ('':CALCulate:SELected:FORMat '' @ dformat_scpi))
                         (print (''VNA Measurement set to '' @ sparam_scpi @ '' with format ''
                                 @ dformat_scpi @ ''.'')))))
               [on_value_error ''Invalid format. Use: <sparam>,<format> (e.g., S21,MLOG)'',
                on_visa ''Error setting S-parameter measurement: '',
                on_exception ''Unexpected error: ''])"

definition do_vna_set_trace :: "env \<Rightarrow> string \<Rightarrow> unit py" where
  "do_vna_set_trace E trace_param_window =
     require_instrument NO_DEVICE
       (if trace_param_window = []
        then print ''Usage: vna_set_trace <trace_num>,<sparam>,<window_num>''
        else try_except
               (and_then (unpack3 trace_param_window) (\<lambda>(tnum, sparam, wnum).
                  let sparam_scpi = upper sparam
                  in seq (instr_write E ('':CALCulate'' @ wnum @ '':PARameter'' @ tnum
                                         @ '':DEFine \"'' @ sparam_scpi @ ''\"''))
                    (seq (instr_write E ('':DISPlay:WINDow'' @ wnum @ '':TRACe'' @ tnum
                                         @ '':FEED \"'' @ sparam_scpi @ ''\"''))
                         (print (''Trace '' @ tnum @ '' in Window '' @ wnum @ '' now displays ''
                                 @ sparam_scpi @ ''.'')))))
               [on_value_error
                  (''Invalid format. Use: <trace_num>,<sparam>,<window_num> ''
                   @ ''(e.g., 2,S21,1)''),
                on_visa ''Error setting VNA trace: '',
                on_exception ''Unexpected error: ''])"

definition do_vna_query_data :: "env \<Rightarrow> string \<Rightarrow> unit py" where
  "do_vna_query_data E arg =
     require_instrument NO_DEVICE
       (try_except
          (and_then (instr_query E '':CALCulate:SELected:DATA:FDATa?'') (\<lambda>data.
             let data_points = split_on (CHR '','') (strip data) in
             seq (print (''VNA Trace Data Queried: '' @ str_nat (length data_points)
                         @ '' values received.''))
            (seq (print (''First 10 values: '' @ repr_list E (take 10 data_points) @ ''...''))
                 (print ([CHR 0x0A]
                         @ ''Note: Use this with Python scripting for saving/plotting.'')))))
          [on_visa ''Error querying VNA data: '', unexpected])"

definition do_rf_screen_capture :: "env \<Rightarrow> string \<Rightarrow> unit py" where
  "do_rf_screen_capture E filename_format =
     require_instrument NO_DEVICE
       (if filename_format = []
        then print ''Usage: rf_screen_capture <filename.png|filename.jpeg>''
        else try_except
               (let filename = strip filename_format;
                    extension = extension_of filename
                in if extension \<in> set [''PNG'', ''JPEG'', ''JPG'']
                   then (let scpi_format = extension;
                             SCPI_COMMAND = '':DISPlay:DATA? '' @ scpi_format
                         in seq (print (''Requesting screen data ('' @ scpi_format @ '')...''))
                           (and_then (instr_query_binary_values E SCPI_COMMAND) (\<lambda>image_data.
                              if image_data = []
                              then print ''Error: Received no image data from the instrument.''
                              else seq (write_file E filename image_data)
                                     (print (''Screen capture successfully saved to: ''
                                             @ filename)))))
                   else print ''Unsupported format for screen capture. Use PNG or JPEG/JPG.'')
               [(ClsVisaIOError, \<lambda>e.
                   seq (print (''Error communicating with instrument: '' @ exn_msg e))
                       (print (''HINT: Check instrument manual for the exact SCPI screen ''
                               @ ''capture command.''))),
                unexpected])"

section \<open>Electronic load commands\<close>

definition do_eload_set_mode :: "env \<Rightarrow> string \<Rightarrow> unit py" where
  "do_eload_set_mode E mode =
     require_instrument NO_DEVICE
       (if mode = [] then print ''Usage: eload_set_mode <CURR|VOLT|RES|POW>''
        else try_except
               (let scpi_mode = upper (strip mode) in
                if scpi_mode \<notin> set [''CURR'', ''VOLT'', ''RES'', ''POW'']
                then print ''Invalid mode. Use CURR, VOLT, RES, or POW.''
                else seq (instr_write E ('':FUNCtion:MODE '' @ scpi_mode))
                         (print (''Electronic Load mode set to: '' @ scpi_mode)))
               [on_visa ''Error setting load mode: '', unexpected])"

definition do_eload_set_current :: "env \<Rightarrow> string \<Rightarrow> unit py" where
  "do_eload_set_current E current =
     require_instrument NO_DEVICE
       (if current = [] then print ''Usage: eload_set_current <amps>''
        else try_except
               (seq (instr_write E ('':CURRent '' @ current))
                    (print (''CC current set to '' @ current @ '' A.'')))
               [on_visa ''Error setting current: '', unexpected])"

definition do_eload_set_voltage :: "env \<Rightarrow> string \<Rightarrow> unit py" where
  "do_eload_set_voltage E voltage =
     require_instrument NO_DEVICE
       (if voltage = [] then print ''Usage: eload_set_voltage <volts>''
        else try_except
               (seq (instr_write E ('':VOLTage '' @ voltage))
                    (print (''CV voltage set to '' @ voltage @ '' V.'')))
               [on_visa ''Error setting voltage: '', unexpected])"

definition do_eload_set_resistance :: "env \<Rightarrow> string \<Rightarrow> unit py" where
  "do_eload_set_resistance E resistance =
     require_instrument NO_DEVICE
       (if resistance = [] then print ''Usage: eload_set_resistance <ohms>''
        else try_except
               (seq (instr_write E ('':RESistance '' @ resistance))
                    (print (''CR resistance set to '' @ resistance @ '' Ohm.'')))
               [on_visa ''Error setting resistance: '', unexpected])"

definition do_eload_set_power :: "env \<Rightarrow> string \<Rightarrow> unit py" where
  "do_eload_set_power E power0 =
     require_instrument NO_DEVICE
       (if power0 = [] then print ''Usage: eload_set_power <watts>''
        else try_except
               (seq (instr_write E ('':POWer '' @ power0))
                    (print (''CP power set to '' @ power0 @ '' W.'')))
               [on_visa ''Error setting power: '', unexpected])"

definition do_eload_input_on :: "env \<Rightarrow> string \<Rightarrow> unit py" where
  "do_eload_input_on E arg =
     require_instrument NO_DEVICE
       (try_except
          (seq (instr_write E '':INPut ON'') (print ''Electronic Load Input ON (Load active).''))
          [on_exception ''Error enabling load input: ''])"

definition do_eload_input_off :: "env \<Rightarrow> string \<Rightarrow> unit py" where
  "do_eload_input_off E arg =
     require_instrument NO_DEVICE
       (try_except
          (seq (instr_write E '':INPut OFF'')
               (print ''Electronic Load Input OFF (Load inactive).''))
          [on_exception ''Error disabling load input: ''])"

definition do_eload_measure_input :: "env \<Rightarrow> string \<Rightarrow> unit py" where
  "do_eload_measure_input E measure_type0 =
     require_instrument NO_DEVICE
       (let measure_type = upper (strip measure_type0) in
        if measure_type \<notin> set [''VOLT'', ''CURR'']
        then print ''Usage: eload_measure_input <VOLT|CURR>''
        else try_except
               (and_then (instr_query E ('':MEASure:'' @ measure_type @ ''?'')) (\<lambda>measurement.
                  let unit = (if measure_type = ''VOLT'' then ''V'' else ''A'') in
                  print (''ELoad Input '' @ measure_type @ '': '' @ strip measurement @ '' ''
                         @ unit)))
               [on_exception (''Error measuring ELoad input '' @ measure_type @ '': '')])"

definition do_eload_set_slew :: "env \<Rightarrow> string \<Rightarrow> unit py" where
  "do_eload_set_slew E rate =
     require_instrument NO_DEVICE
       (if rate = [] then print ''Usage: eload_set_slew <amps_per_second>''
        else try_except
               (seq (instr_write E ('':CURRent:SLEW:RATE '' @ rate))
                    (print (''CC Slew Rate set to '' @ rate @ '' A/s.'')))
               [on_exception ''Error setting current slew rate: ''])"

definition do_eload_set_transient :: "env \<Rightarrow> string \<Rightarrow> unit py" where
  "do_eload_set_transient E levels_timing =
     require_instrument NO_DEVICE
       (if levels_timing = []
        then print ''Usage: eload_set_transient <level_A>,<level_B>,<pulse_width>''
        else try_except
               (and_then (unpack3 levels_timing) (\<lambda>(level_a, level_b, pulse_width).
                  seq (instr_write E ('':CURRent:STATic '' @ level_a))
                 (seq (instr_write E ('':CURRent:TRANsient:LEVel '' @ level_b))
                 (seq (instr_write E ('':CURRent:TRANsient:PULSe:WIDTh '' @ pulse_width))
                 (seq (instr_write E '':FUNCtion:MODE TRANsient'')
                      (print (''ELoad set for transient test: A='' @ level_a @ '', B=''
                              @ level_b @ '', Width='' @ pulse_width @ ''.'')))))))
               [on_value_error
                  (''Invalid format. Use: <level_A>,<level_B>,<pulse_width> ''
                   @ ''(e.g., 0.5A,2.0A,10ms)''),
                on_visa ''Error setting transient mode: '', unexpected])"

definition do_eload_set_ovl :: "env \<Rightarrow> string \<Rightarrow> unit py" where
  "do_eload_set_ovl E voltage =
     require_instrument NO_DEVICE
       (if voltage = [] then print ''Usage: eload_set_ovl <voltage>''
        else try_except
               (seq (instr_write E ('':VOLTage:PROTection:LEVel '' @ voltage))
                    (print (''OVL set to '' @ voltage @ '' V'')))
               [on_exception ''Error setting OVL: ''])"

definition do_eload_set_opl :: "env \<Rightarrow> string \<Rightarrow> unit py" where
  "do_eload_set_opl E power0 =
     require_instrument NO_DEVICE
       (if power0 = [] then print ''Usage: eload_set_opl <power_watts>''
        else try_except
               (seq (instr_write E ('':POWer:PROTection:LEVel '' @ power0))
                    (print (''OPL set to '' @ power0 @ '' W'')))
               [on_exception ''Error setting OPL: ''])"

section \<open>Diagnostics\<close>

definition do_ping_device :: "env \<Rightarrow> string \<Rightarrow> unit py" where
  "do_ping_device E arg =
     require_instrument NO_DEVICE
       (try_except
          (and_then (instr_query E ''*OPC?'') (\<lambda>answer.
             let resp = strip answer in
             if resp = ''1'' \<or> lower resp = ''true''
             then print ''Instrument communication OK.''
             else print (''Unexpected response: '' @ resp)))
          [on_visa ''Device ping failed (VisaIOError): '',
           on_exception ''Device ping failed: ''])"

text \<open>
  The probe loop of \<open>do_check_capabilities\<close>:
  \<^verbatim>\<open>
  for cmd in candidate_cmds:
      try:
          _ = self.instrument.query(cmd); supported.append(cmd)
      except Exception: pass
  \<close>
\<close>

fun probe :: "env \<Rightarrow> string list \<Rightarrow> string list \<Rightarrow> string list py" where
  "probe E [] supported = pure supported"
| "probe E (cmd # rest) supported =
     and_then
       (try_except
          (and_then (instr_query E cmd) (\<lambda>_. pure (supported @ [cmd])))
          [(ClsException, \<lambda>e. pure supported)])
       (\<lambda>supported'. probe E rest supported')"

definition do_check_capabilities :: "env \<Rightarrow> string \<Rightarrow> unit py" where
  "do_check_capabilities E arg =
     require_instrument NO_DEVICE
       (try_except
          (seq (print (''Checking instrument capabilities...'' @ [CHR 0x0A]))
          (seq (try_except
                  (and_then (instr_query E ''*IDN?'') (\<lambda>answer.
                     let idn = strip answer in print (''IDN: '' @ idn)))
                  [(ClsException, \<lambda>e. print ''IDN query not supported or failed.'')])
          (seq (try_except
                  (and_then (instr_query E ''*OPT?'') (\<lambda>answer.
                     let opts = strip answer in print (''Options: '' @ opts)))
                  [(ClsException, \<lambda>e. print ''Options query not supported.'')])
               (let candidate_cmds =
                      ['':MEASure:VOLTage:DC?'', '':MEASure:VOLTage:AC?'',
                       '':MEASure:CURRent:DC?'', '':MEASure:RESistance?'',
                       '':WAVeform:DATA?'', '':TRIGger:SOURce?'', '':OUTPut:STATe?'']
                in and_then (probe E candidate_cmds []) (\<lambda>supported.
                     if supported \<noteq> []
                     then seq (print ([CHR 0x0A]
                                 @ ''Likely supported SCPI commands (best-effort probe):''))
                              (print_each ''  '' supported)
                     else print ([CHR 0x0A]
                            @ ''Could not auto-detect SCPI feature set from probes.''))))))
          [on_exception ''Error checking capabilities: ''])"

section \<open>Leaving the console\<close>

text \<open>
  How a call ends: it returns, an exception propagates out of it, \<open>sys.exit(code)\<close> raises
  SystemExit, or Ctrl+C raises KeyboardInterrupt. Neither of the last two is an
  \<open>Exception\<close>, so no handler of the console catches them.
\<close>

datatype outcome = Returned | Raised exn | SystemExit int | KeyboardInterrupt

definition finish :: "(exn + unit) \<times> console \<Rightarrow> outcome \<times> console" where
  "finish r = (case r of (Inr _, s) \<Rightarrow> (Returned, s) | (Inl e, s) \<Rightarrow> (Raised e, s))"

text \<open>An f-string prints the attribute \<open>None\<close> as \<open>None\<close>.\<close>

definition str_of_attr :: "string option \<Rightarrow> string" where
  "str_of_attr v = (case v of None \<Rightarrow> ''None'' | Some x \<Rightarrow> x)"

definition do_exit :: "env \<Rightarrow> string \<Rightarrow> console \<Rightarrow> outcome \<times> console" where
  "do_exit E arg s =
     (case seq (try_except (write_history_file E) pass)
          (seq (when_instrument
                  (try_except
                     (seq (\<lambda>s1. print (''Closing connection to ''
                                       @ str_of_attr (selected_device_id s1) @ ''...'') s1)
                          (instr_close E))
                     pass))
               (print ''Exiting console. Goodbye!'')) s of
        (Inl e, s') \<Rightarrow> (Raised e, s')
      | (Inr _, s') \<Rightarrow> (SystemExit 0, s'))"

definition do_EOF :: "env \<Rightarrow> string \<Rightarrow> console \<Rightarrow> outcome \<times> console" where
  "do_EOF E arg s =
     (case print [] s of
        (Inl e, s') \<Rightarrow> (Raised e, s')
      | (Inr _, s') \<Rightarrow> do_exit E arg s')"

definition postloop :: "env \<Rightarrow> unit py" where
  "postloop E =
     seq (when_instrument (try_except (instr_close E) pass))
         (try_except (write_history_file E) pass)"

section \<open>Dispatch and the main program\<close>

text \<open>
  \<open>cmd.Cmd\<close> finds the method of a command by its name, \<open>do_\<close> followed by the first
  word of the line. \<open>instrument_commands\<close> lists the methods that talk to the selected
  instrument, \<open>commands\<close> every method of the console that returns to the prompt.
\<close>

definition instrument_commands :: "env \<Rightarrow> (string \<times> (string \<Rightarrow> unit py)) list" where
  "instrument_commands E =
     [(''id'', do_id E),
      (''write'', do_write E),
      (''query'', do_query E),
      (''reset'', do_reset E),
      (''wait_opc'', do_wait_opc E),
      (''get_error'', do_get_error E),
      (''dmm_func_set'', do_dmm_func_set E),
      (''dmm_range_set'', do_dmm_range_set E),
      (''dmm_autoranging'', do_dmm_autoranging E),
      (''dmm_delay_set'', do_dmm_delay_set E),
      (''dmm_resolution_set'', do_dmm_resolution_set E),
      (''dmm_measure_dc_v'', do_dmm_measure_dc_v E),
      (''dmm_measure_ac_v'', do_dmm_measure_ac_v E),
      (''dmm_measure_dc_i'', do_dmm_measure_dc_i E),
      (''dmm_measure_ac_i'', do_dmm_measure_ac_i E),
      (''dmm_measure_continuity'', do_dmm_measure_continuity E),
      (''dmm_measure_diode'', do_dmm_measure_diode E),
      (''dmm_measure2_resistance'', do_dmm_measure2_resistance E),
      (''dmm_measure4_resistance'', do_dmm_measure4_resistance E),
      (''oscope_set_timebase'', do_oscope_set_timebase E),
      (''oscope_set_vertscale'', do_oscope_set_vertscale E),
      (''oscope_measure_param'', do_oscope_measure_param E),
      (''oscope_set_trigger_source'', do_oscope_set_trigger_source E),
      (''oscope_set_trigger_level'', do_oscope_set_trigger_level E),
      (''oscope_set_trigger_slope'', do_oscope_set_trigger_slope E),
      (''oscope_get_setup'', do_oscope_get_setup E),
      (''oscope_run'', do_oscope_run E),
      (''oscope_screen_capture'', do_oscope_screen_capture E),
      (''oscope_capture_data'', do_oscope_capture_data E),
      (''afg_set_wave'', do_afg_set_wave E),
      (''afg_output_on'', do_afg_output_on E),
      (''afg_output_off'', do_afg_output_off E),
      (''afg_psu_slew_set'', do_afg_psu_slew_set E),
      (''psu_set_voltage'', do_psu_set_voltage E),
      (''psu_set_current'', do_psu_set_current E),
      (''psu_output_on'', do_psu_output_on E),
      (''psu_output_off'', do_psu_output_off E),
      (''psu_set_ovp'', do_psu_set_ovp E),
      (''psu_set_ocp'', do_psu_set_ocp E),
      (''psu_set_otp'', do_psu_set_otp E),
      (''psu_measure_output'', do_psu_measure_output E),
      (''psu_protection_clear'', do_psu_protection_clear E),
      (''rf_set_center_freq'', do_rf_set_center_freq E),
      (''rf_set_span'', do_rf_set_span E),
      (''rf_set_power'', do_rf_set_power E),
      (''sa_set_rbw_vbw'', do_sa_set_rbw_vbw E),
      (''sa_read_marker'', do_sa_read_marker E),
      (''vna_set_sweep'', do_vna_set_sweep E),
      (''vna_measure_sparam'', do_vna_measure_sparam E),
      (''vna_set_trace'', do_vna_set_trace E),
      (''vna_query_data'', do_vna_query_data E),
      (''rf_screen_capture'', do_rf_screen_capture E),
      (''eload_set_mode'', do_eload_set_mode E),
      (''eload_set_current'', do_eload_set_current E),
      (''eload_set_voltage'', do_eload_set_voltage E),
      (''eload_set_resistance'', do_eload_set_resistance E),
      (''eload_set_power'', do_eload_set_power E),
      (''eload_input_on'', do_eload_input_on E),
      (''eload_input_off'', do_eload_input_off E),
      (''eload_measure_input'', do_eload_measure_input E),
      (''eload_set_slew'', do_eload_set_slew E),
      (''eload_set_transient'', do_eload_set_transient E),
      (''eload_set_ovl'', do_eload_set_ovl E),
      (''eload_set_opl'', do_eload_set_opl E),
      (''ping_device'', do_ping_device E),
      (''check_capabilities'', do_check_capabilities E)]"

definition commands :: "env \<Rightarrow> (string \<times> (string \<Rightarrow> unit py)) list" where
  "commands E =
     [(''devicelist'', do_devicelist E),
      (''deviceselect'', do_deviceselect E),
      (''deviceinfo'', do_deviceinfo E)] @ instrument_commands E"

text \<open>
  \<open>onecmd\<close> runs the method of one line, given as its first word and the rest. A word
  that names no method goes to \<open>cmd.Cmd.default\<close>, which prints a message; \<open>help\<close> and
  the repetition of the last command on an empty line are \<open>cmd.Cmd\<close>'s own and are not
  modelled.
\<close>

definition onecmd :: "env \<Rightarrow> string \<Rightarrow> string \<Rightarrow> console \<Rightarrow> outcome \<times> console" where
  "onecmd E cmd arg s =
     (if cmd = ''exit'' then do_exit E arg s
      else if cmd = ''EOF'' then do_EOF E arg s
      else (case map_of (commands E) cmd of
              Some do_cmd \<Rightarrow> finish (do_cmd arg s)
            | None \<Rightarrow>
                finish (print (''*** Unknown syntax: '' @ cmd
                               @ (if arg = [] then [] else '' '' @ arg)) s)))"

text \<open>
  What the user does at the prompt: enter a line, or press Ctrl+C. \<open>cmdloop\<close> reads
  until a method raises; at the end of the input \<open>cmd.Cmd\<close> runs the line \<open>EOF\<close>. No
  method of the console returns a true value, so the loop never stops by itself.
\<close>

datatype event = Line string string | CtrlC

fun cmdloop :: "env \<Rightarrow> event list \<Rightarrow> console \<Rightarrow> outcome \<times> console" where
  "cmdloop E [] s = onecmd E ''EOF'' [] s"
| "cmdloop E (CtrlC # rest) s = (KeyboardInterrupt, s)"
| "cmdloop E (Line cmd arg # rest) s =
     (case onecmd E cmd arg s of
        (Returned, s') \<Rightarrow> cmdloop E rest s'
      | (how, s') \<Rightarrow> (how, s'))"

text \<open>
  The main program: the exit status of the process and the final state.
  \<^verbatim>\<open>
  try: Console().cmdloop()
  except KeyboardInterrupt: print("\nCtrl+C detected. Exiting console. Goodbye!")
  except Exception as e: print(f"A fatal error occurred: {e}")
  \<close>
  A SystemExit that reaches the top ends the process with its code; otherwise the
  program runs to its end, and the status is 0.
\<close>

definition main :: "env \<Rightarrow> event list \<Rightarrow> console \<Rightarrow> int \<times> console" where
  "main E events s =
     (case cmdloop E events s of
        (Returned, s') \<Rightarrow> (0, s')
      | (KeyboardInterrupt, s') \<Rightarrow>
          (0, snd (print ([CHR 0x0A] @ ''Ctrl+C detected. Exiting console. Goodbye!'') s'))
      | (Raised e, s') \<Rightarrow> (0, snd (print (''A fatal error occurred: '' @ exn_msg e) s'))
      | (SystemExit code, s') \<Rightarrow> (code, s'))"

section \<open>What the claims speak of\<close>

text \<open>
  The connection state of the console is its instrument handle and its selected device
  id. A block keeps the connection when it leaves both as it found them, whatever else it
  does; it never raises when no exception propagates out of it.
\<close>

definition connection :: "console \<Rightarrow> handle option \<times> string option" where
  "connection s = (instrument s, selected_device_id s)"

definition keeps_connection :: "'a py \<Rightarrow> bool" where
  "keeps_connection m \<longleftrightarrow> (\<forall>s. connection (snd (m s)) = connection s)"

definition never_raises :: "unit py \<Rightarrow> bool" where
  "never_raises m \<longleftrightarrow> (\<forall>s. fst (m s) = Inr ())"

text \<open>
  The state after the first block of \<open>do_deviceselect\<close>, which closes an open connection
  and clears both attributes.
\<close>

definition after_close :: "console \<Rightarrow> console" where
  "after_close s =
     (case instrument s of
        None \<Rightarrow> s
      | Some h \<Rightarrow> s\<lparr>instrument := None, selected_device_id := None,
                     calls := calls s @ [Close h]\<rparr>)"

text \<open>The invariant of C10: a handle is held exactly when a device id is.\<close>

definition handle_iff_id :: "console \<Rightarrow> bool" where
  "handle_iff_id s \<longleftrightarrow> (instrument s = None) = (selected_device_id s = None)"

text \<open>
  \<open>said message s\<close> is how a method ends that returns after printing one line and doing
  nothing else: no call on the VISA library, no file, no change of an attribute.
\<close>

definition said :: "string \<Rightarrow> console \<Rightarrow> (exn + unit) \<times> console" where
  "said message s = (Inr (), s\<lparr>printed := printed s @ [message]\<rparr>)"

text \<open>
  The methods that unpack their argument into two or three comma-separated parts under an
  \<open>except ValueError\<close> clause, each with the number of names it unpacks into and the
  line that clause prints.
\<close>

definition composite_commands :: "env \<Rightarrow> ((string \<Rightarrow> unit py) \<times> nat \<times> string) list" where
  "composite_commands E =
     [(do_oscope_set_vertscale E, 2,
         ''Invalid format. Use: <channel>,<volts_per_div> (e.g., 1,0.5)''),
      (do_oscope_measure_param E, 2,
         ''Invalid format. Use: <channel>,<parameter> (e.g., 1,FREQ)''),
      (do_oscope_set_trigger_level E, 2,
         ''Invalid format. Use: <channel>,<voltage> (e.g., 1,0.5)''),
      (do_oscope_set_trigger_slope E, 2,
         ''Invalid format. Use: <channel>,<POS|NEG|EITH> (e.g., 1,POS)''),
      (do_afg_set_wave E, 3,
         ''Invalid format. Use: afg_set_wave \"WAVE,FREQ,AMPL\" (e.g., SIN,1000,1.0)''),
      (do_sa_set_rbw_vbw E, 2,
         ''Invalid format. Use: <rbw>,<vbw> (e.g., 10kHz,3kHz)''),
      (do_vna_set_sweep E, 3,
         ''Invalid format. Use: <start_freq>,<stop_freq>,<points> (e.g., 1GHz,2GHz,201)''),
      (do_vna_measure_sparam E, 2,
         ''Invalid format. Use: <sparam>,<format> (e.g., S21,MLOG)''),
      (do_vna_set_trace E, 3,
         ''Invalid format. Use: <trace_num>,<sparam>,<window_num> (e.g., 2,S21,1)''),
      (do_eload_set_transient E, 3,
         ''Invalid format. Use: <level_A>,<level_B>,<pulse_width> (e.g., 0.5A,2.0A,10ms)'')]"

text \<open>
  Scientific notation with \<open>n\<close> significant digits: an optional minus sign, one digit,
  a point, \<open>n - 1\<close> digits, the letter e, a sign and at least two digits.
\<close>

definition is_digit :: "char \<Rightarrow> bool" where
  "is_digit c \<longleftrightarrow> c \<in> set ''0123456789''"

definition sci_notation :: "nat \<Rightarrow> string \<Rightarrow> bool" where
  "sci_notation n s \<longleftrightarrow>
     (case (if take 1 s = ''-'' then drop 1 s else s) of
        d # p # rest \<Rightarrow>
          is_digit d \<and> p = CHR ''.'' \<and> n - 1 \<le> length rest \<and>
          list_all is_digit (take (n - 1) rest) \<and>
          (case drop (n - 1) rest of
             e # sign # ds \<Rightarrow>
               e = CHR ''e'' \<and> sign \<in> set ''+-'' \<and> 2 \<le> length ds \<and> list_all is_digit ds
           | _ \<Rightarrow> False)
      | _ \<Rightarrow> False)"

section \<open>A world for the worked examples\<close>

text \<open>
  One environment and two states, for evaluating the console on concrete inputs. Only the
  address \<open>GPIB0::2::INSTR\<close> can be opened; the preamble query answers three numbers,
  every other query answers \<open>abc\<close>, a binary read answers no bytes; \<open>float\<close> knows the
  text \<open>1\<close> only.
\<close>

definition example_env :: env where
  "example_env =
     \<lparr> on_list_resources = (\<lambda>cs. Inr []),
       on_open_resource = (\<lambda>cs resource_name.
          if resource_name = ''GPIB0::2::INSTR'' then Inr 1
          else Inl (VisaIOError ''VI_ERROR_RSRC_NFOUND'')),
       on_close = (\<lambda>cs h. Inr ()),
       on_timeout = (\<lambda>cs h. Inr ()),
       on_query = (\<lambda>cs h message.
          if message = '':WAVeform:PREamble?'' then Inr ''1,1,1'' else Inr ''abc''),
       on_write = (\<lambda>cs h message. Inr ()),
       on_query_binary_values = (\<lambda>cs h message. Inr []),
       on_open_file = (\<lambda>fs filename. Inr ()),
       on_write_history_file = Inr (),
       floats = \<lparr> float_of_str = (\<lambda>part. if part = ''1'' then Some (Fin 1) else None),
          float_error = (\<lambda>part. ''could not convert string to float: '' @ quoted part),
          fmul = double_mul, fsub = double_sub, float_of_nat = double_of_nat,
          float_repr = (\<lambda>x. []) \<rparr>,
       repr_list = (\<lambda>xs. []) \<rparr>"

definition fresh :: console where
  "fresh = \<lparr> rm = True, instrument = None, selected_device_id = None, calls = [],
     printed = [], files = [] \<rparr>"

definition connected :: console where
  "connected = fresh\<lparr>instrument := Some 7, selected_device_id := Some ''USB0::1::INSTR''\<rparr>"

section \<open>Properties of the waveform decoder\<close>

lemma process_data_length:
  "length (process_data F X Y R i raw acc) = length acc + length raw"
  by (induction raw arbitrary: i acc) (simp_all add: Let_def)

lemma process_data_nth_acc:
  "k < length acc \<Longrightarrow> process_data F X Y R i raw acc ! k = acc ! k"
  by (induction raw arbitrary: i acc) (simp_all add: Let_def nth_append)

lemma process_data_nth_new:
  "k < length raw \<Longrightarrow>
   process_data F X Y R i raw acc ! (length acc + k) =
     (fmul F (float_of_nat F (i + k)) X, fmul F Y (fsub F (raw ! k) R))"
proof (induction raw arbitrary: i acc k)
  case Nil
  then show ?case by simp
next
  case (Cons r rest)
  show ?case
  proof (cases k)
    case 0
    then show ?thesis
      by (simp add: Let_def process_data_nth_acc)
  next
    case (Suc j)
    with Cons.prems have j: "j < length rest" by simp
    from Cons.IH [OF j, of "Suc i" "acc @ [(fmul F (float_of_nat F i) X, fmul F Y (fsub F r R))]"]
    show ?thesis using Suc by (simp add: Let_def)
  qed
qed

lemma decode_waveform_formula:
  assumes "9 \<le> length preamble"
  shows "\<exists>ps. decode_waveform F preamble raw = Inr ps \<and> length ps = length raw \<and>
            (\<forall>i<length raw. ps ! i =
               (fmul F (float_of_nat F i) (preamble ! 5),
                fmul F (preamble ! 7) (fsub F (raw ! i) (preamble ! 8))))"
proof -
  have dec: "decode_waveform F preamble raw =
      Inr (process_data F (preamble ! 5) (preamble ! 7) (preamble ! 8) 0 raw [])"
    using assms by (simp add: decode_waveform_def py_index_def)
  show ?thesis
    using process_data_nth_new [of _ raw F "preamble ! 5" "preamble ! 7" "preamble ! 8" 0 "[]"]
    by (simp add: dec process_data_length)
qed

section \<open>Blocks that keep the connection, blocks that never raise\<close>

lemma kc_pure: "keeps_connection (pure x)" by (simp add: keeps_connection_def pure_def)
lemma kc_raise: "keeps_connection (raise e)" by (simp add: keeps_connection_def raise_def)
lemma kc_lift: "keeps_connection (lift r)" by (simp add: keeps_connection_def lift_def)
lemma kc_print: "keeps_connection (print l)"
  by (simp add: keeps_connection_def print_def connection_def)
lemma kc_on_instrument: "keeps_connection (on_instrument c reply attr)"
  by (simp add: keeps_connection_def on_instrument_def connection_def split: option.splits)
lemma kc_instr:
  "keeps_connection (instr_query E m)" "keeps_connection (instr_write E m)"
  "keeps_connection (instr_query_binary_values E m)" "keeps_connection (instr_close E)"
  "keeps_connection (configure_timeout E)"
  by (simp_all add: instr_query_def instr_write_def instr_query_binary_values_def
      instr_close_def configure_timeout_def kc_on_instrument)
lemma kc_write_file: "keeps_connection (write_file E f c)"
  by (simp add: keeps_connection_def write_file_def connection_def split: sum.splits)
lemma kc_write_history_file: "keeps_connection (write_history_file E)"
  by (simp add: write_history_file_def kc_lift)
lemma kc_list_resources: "keeps_connection (list_resources E)"
  by (simp add: keeps_connection_def list_resources_def connection_def)
lemma kc_and_then:
  "keeps_connection m \<Longrightarrow> (\<And>x. keeps_connection (f x)) \<Longrightarrow> keeps_connection (and_then m f)"
  by (auto simp: keeps_connection_def and_then_def split: prod.splits sum.splits)
     (metis snd_conv)+
lemma kc_seq: "keeps_connection m \<Longrightarrow> keeps_connection n \<Longrightarrow> keeps_connection (seq m n)"
  by (simp add: seq_def kc_and_then)
lemma kc_handle_with:
  "list_all (\<lambda>(c, h). \<forall>e'. keeps_connection (h e')) hs \<Longrightarrow> keeps_connection (handle_with hs e)"
  by (induction hs) (auto simp: kc_raise)
lemma kc_try_except:
  assumes "keeps_connection body" "list_all (\<lambda>(c, h). \<forall>e. keeps_connection (h e)) hs"
  shows "keeps_connection (try_except body hs)"
  unfolding keeps_connection_def
proof
  fix s
  show "connection (snd (try_except body hs s)) = connection s"
  proof (cases "body s")
    case (Pair r s')
    from assms(1) Pair have s': "connection s' = connection s"
      by (metis keeps_connection_def snd_conv)
    show ?thesis
    proof (cases r)
      case (Inl e)
      from kc_handle_with [OF assms(2), of e] have "connection (snd (handle_with hs e s')) = connection s'"
        by (simp add: keeps_connection_def)
      with Pair Inl s' show ?thesis by (simp add: try_except_def)
    next
      case (Inr x)
      with Pair s' show ?thesis by (simp add: try_except_def)
    qed
  qed
qed
lemma kc_require: "keeps_connection body \<Longrightarrow> keeps_connection (require_instrument m body)"
  using kc_print [of m] by (simp add: keeps_connection_def require_instrument_def)
lemma kc_if: "keeps_connection a \<Longrightarrow> keeps_connection b \<Longrightarrow> keeps_connection (if c then a else b)"
  by simp
lemma kc_case_prod: "(\<And>a b. keeps_connection (f a b)) \<Longrightarrow> keeps_connection (case p of (a, b) \<Rightarrow> f a b)"
  by (cases p) simp
lemma kc_unpack: "keeps_connection (unpack2 x)" "keeps_connection (unpack3 x)"
  by (simp_all add: unpack2_def unpack3_def kc_pure kc_raise split: list.splits)
lemma kc_print_each: "keeps_connection (print_each p xs)"
  by (induction xs) (simp_all add: kc_pure kc_seq kc_print)

lemmas kc_intros = kc_pure kc_raise kc_lift kc_print kc_instr kc_write_file kc_write_history_file
  kc_list_resources kc_and_then kc_seq kc_try_except kc_require kc_if kc_case_prod kc_unpack kc_print_each

lemmas handler_defs = on_visa_def unexpected_def on_exception_def on_value_error_def pass_def



lemmas instrument_command_defs =
  do_id_def do_write_def do_query_def do_reset_def do_wait_opc_def do_get_error_def
  do_dmm_func_set_def do_dmm_range_set_def do_dmm_autoranging_def do_dmm_delay_set_def
  do_dmm_resolution_set_def do_dmm_measure_dc_v_def do_dmm_measure_ac_v_def
  do_dmm_measure_dc_i_def do_dmm_measure_ac_i_def do_dmm_measure_continuity_def
  do_dmm_measure_diode_def do_dmm_measure2_resistance_def do_dmm_measure4_resistance_def
  do_oscope_set_timebase_def do_oscope_set_vertscale_def do_oscope_measure_param_def
  do_oscope_set_trigger_source_def do_oscope_set_trigger_level_def
  do_oscope_set_trigger_slope_def do_oscope_get_setup_def do_oscope_run_def
  do_oscope_screen_capture_def do_oscope_capture_data_def do_afg_set_wave_def
  do_afg_output_on_def do_afg_output_off_def do_afg_psu_slew_set_def do_psu_set_voltage_def
  do_psu_set_current_def do_psu_output_on_def do_psu_output_off_def do_psu_set_ovp_def
  do_psu_set_ocp_def do_psu_set_otp_def do_psu_measure_output_def
  do_psu_protection_clear_def do_rf_set_center_freq_def do_rf_set_span_def
  do_rf_set_power_def do_sa_set_rbw_vbw_def do_sa_read_marker_def do_vna_set_sweep_def
  do_vna_measure_sparam_def do_vna_set_trace_def do_vna_query_data_def
  do_rf_screen_capture_def do_eload_set_mode_def do_eload_set_current_def
  do_eload_set_voltage_def do_eload_set_resistance_def do_eload_set_power_def
  do_eload_input_on_def do_eload_input_off_def do_eload_measure_input_def
  do_eload_set_slew_def do_eload_set_transient_def do_eload_set_ovl_def do_eload_set_opl_def
  do_ping_device_def do_check_capabilities_def
  dmm_measure_def

lemma kc_instrument_commands:
  "list_all (\<lambda>(name, do_cmd). \<forall>arg. keeps_connection (do_cmd arg)) (instrument_commands E)"
  unfolding instrument_commands_def list.pred_inject prod.case instrument_command_defs Let_def
  by (intro conjI allI kc_intros) (simp_all add: handler_defs kc_intros)

lemma nr_pure: "never_raises (pure ())" by (simp add: never_raises_def pure_def)
lemma nr_print: "never_raises (print l)" by (simp add: never_raises_def print_def)
lemma nr_set: "never_raises (set_instrument v)" "never_raises (set_selected_device_id w)"
  by (simp_all add: never_raises_def set_instrument_def set_selected_device_id_def)
lemma nr_seq: "never_raises m \<Longrightarrow> never_raises n \<Longrightarrow> never_raises (seq m n)"
  by (simp add: never_raises_def seq_def and_then_def split: prod.splits sum.splits)
     (metis fst_conv Inl_Inr_False)
lemma nr_if: "never_raises a \<Longrightarrow> never_raises b \<Longrightarrow> never_raises (if c then a else b)"
  by simp
lemma nr_require: "never_raises body \<Longrightarrow> never_raises (require_instrument m body)"
  using nr_print [of m] by (simp add: never_raises_def require_instrument_def)
lemma nr_try_except:
  "(\<And>e. never_raises (handle_with hs e)) \<Longrightarrow> never_raises (try_except body hs)"
  by (auto simp: never_raises_def try_except_def split: prod.splits sum.splits)
lemma nr_print_each: "never_raises (print_each p xs)"
  by (induction xs) (simp_all add: nr_pure nr_seq nr_print)
lemma nr_state_if:
  "never_raises a \<Longrightarrow> never_raises b \<Longrightarrow> never_raises (\<lambda>s. if c s then a s else b s)"
  by (simp add: never_raises_def)

lemmas nr_intros = nr_pure nr_print nr_set nr_seq nr_if nr_require nr_try_except nr_print_each

lemma nr_instrument_commands:
  "list_all (\<lambda>(name, do_cmd). \<forall>arg. never_raises (do_cmd arg)) (instrument_commands E)"
  unfolding instrument_commands_def list.pred_inject prod.case instrument_command_defs Let_def
  by (intro conjI allI nr_intros) (simp_all add: handler_defs nr_intros)

lemma list_allD: "list_all P xs \<Longrightarrow> x \<in> set xs \<Longrightarrow> P x"
  by (simp add: list_all_iff)

lemma require_instrument_None:
  "instrument s = None \<Longrightarrow> require_instrument message body s = said message s"
  by (simp add: require_instrument_def said_def print_def)

lemma guard_instrument_commands:
  "list_all (\<lambda>(name, do_cmd). \<forall>arg s. instrument s = None \<longrightarrow>
       do_cmd arg s = said NO_DEVICE s \<or> do_cmd arg s = said NO_DEVICE_HINT s)
     (instrument_commands E)"
  unfolding instrument_commands_def list.pred_inject prod.case instrument_command_defs
  by (simp add: require_instrument_None)

section \<open>Commands without a connection\<close>

text \<open>
  C3. Every instrument command (all the methods of the console but \<open>devicelist\<close>,
  \<open>deviceselect\<close>, \<open>deviceinfo\<close>, \<open>exit\<close> and \<open>EOF\<close>), with any argument and no
  connection, returns after printing one line, which is one of the two
  "No device selected" messages; it makes no call on the VISA library and changes nothing
  else.
\<close>

theorem no_device_no_transport:
  assumes "(name, do_cmd) \<in> set (instrument_commands E)" and "instrument s = None"
  shows "(do_cmd arg s = (Inr (), s\<lparr>printed := printed s @ [NO_DEVICE]\<rparr>) \<or>
          do_cmd arg s = (Inr (), s\<lparr>printed := printed s @ [NO_DEVICE_HINT]\<rparr>)) \<and>
         calls (snd (do_cmd arg s)) = calls s"
proof -
  from list_allD [OF guard_instrument_commands assms(1)]
  have "\<forall>arg s. instrument s = None \<longrightarrow>
       do_cmd arg s = said NO_DEVICE s \<or> do_cmd arg s = said NO_DEVICE_HINT s"
    by simp
  with assms(2) have "do_cmd arg s = said NO_DEVICE s \<or> do_cmd arg s = said NO_DEVICE_HINT s"
    by blast
  then show ?thesis by (auto simp: said_def)
qed

theorem no_device_no_transport_witness:
  "(''oscope_capture_data'', do_oscope_capture_data example_env)
     \<in> set (instrument_commands example_env) \<and>
   instrument fresh = None \<and>
   do_oscope_capture_data example_env ''wave.csv'' fresh =
     (Inr (), fresh\<lparr>printed := [''No device selected.'']\<rparr>) \<and>
   calls (snd (do_oscope_capture_data example_env ''wave.csv'' fresh)) = []"
proof -
  have m: "(''oscope_capture_data'', do_oscope_capture_data example_env)
      \<in> set (instrument_commands example_env)"
    by (simp add: instrument_commands_def)
  have n: "instrument fresh = None" by (simp add: fresh_def)
  have "NO_DEVICE \<noteq> NO_DEVICE_HINT" by (simp add: NO_DEVICE_def NO_DEVICE_HINT_def)
  moreover have "do_oscope_capture_data example_env ''wave.csv'' fresh \<noteq>
      (Inr (), fresh\<lparr>printed := printed fresh @ [NO_DEVICE_HINT]\<rparr>)"
    using n by (simp add: do_oscope_capture_data_def require_instrument_def print_def
        NO_DEVICE_def NO_DEVICE_HINT_def fresh_def)
  ultimately show ?thesis
    using no_device_no_transport [OF m n, of "''wave.csv''"] m n
    by (auto simp: NO_DEVICE_def fresh_def)
qed

section \<open>Commands and the connection state\<close>

text \<open>
  C8. Every instrument command, with any argument and whatever the VISA library and the
  file system answer (success, VisaIOError or any other exception), leaves the
  instrument handle and the selected device id as they were.
\<close>

theorem instrument_commands_keep_connection:
  assumes "(name, do_cmd) \<in> set (instrument_commands E)"
  shows "instrument (snd (do_cmd arg s)) = instrument s \<and>
         selected_device_id (snd (do_cmd arg s)) = selected_device_id s"
proof -
  from list_allD [OF kc_instrument_commands assms] have "keeps_connection (do_cmd arg)"
    by simp
  then show ?thesis by (simp add: keeps_connection_def connection_def)
qed

theorem instrument_commands_keep_connection_witness:
  "(''write'', do_write example_env) \<in> set (instrument_commands example_env) \<and>
   instrument (snd (do_write example_env ''*RST'' connected)) = Some 7 \<and>
   selected_device_id (snd (do_write example_env ''*RST'' connected)) = Some ''USB0::1::INSTR''"
proof -
  have m: "(''write'', do_write example_env) \<in> set (instrument_commands example_env)"
    by (simp add: instrument_commands_def)
  from instrument_commands_keep_connection [OF m, of "''*RST''" connected] m
  show ?thesis by (simp add: connected_def fresh_def)
qed

section \<open>Malformed composite arguments\<close>

lemma unpack2_bad:
  assumes "length (split_on (CHR '','') x) \<noteq> 2"
  shows "\<exists>m. unpack2 x = raise (ValueError m)"
proof -
  have g: "\<And>ps :: string list. length ps \<noteq> 2 \<Longrightarrow>
      \<exists>m. (case ps of [a, b] \<Rightarrow> pure (a, b)
               | parts \<Rightarrow> raise (ValueError (unpack_message 2 (length parts)))) =
          (raise (ValueError m) :: (string \<times> string) py)"
    by (auto split: list.splits)
  from assms have "length (map strip (split_on (CHR '','') x)) \<noteq> 2" by simp
  from g [OF this] show ?thesis by (simp add: unpack2_def)
qed

lemma unpack3_bad:
  assumes "length (split_on (CHR '','') x) \<noteq> 3"
  shows "\<exists>m. unpack3 x = raise (ValueError m)"
proof -
  have g: "\<And>ps :: string list. length ps \<noteq> 3 \<Longrightarrow>
      \<exists>m. (case ps of [a, b, c] \<Rightarrow> pure (a, b, c)
               | parts \<Rightarrow> raise (ValueError (unpack_message 3 (length parts)))) =
          (raise (ValueError m) :: (string \<times> string \<times> string) py)"
    by (auto split: list.splits)
  from assms have "length (map strip (split_on (CHR '','') x)) \<noteq> 3" by simp
  from g [OF this] show ?thesis by (simp add: unpack3_def)
qed

lemma try_value_error:
  "m = raise (ValueError t) \<Longrightarrow>
   try_except (and_then m f) (on_value_error message # hs) s = said message s"
  by (simp add: try_except_def and_then_def raise_def on_value_error_def said_def print_def)

lemma require_instrument_Some:
  "instrument s \<noteq> None \<Longrightarrow> require_instrument message body s = body s"
  by (auto simp: require_instrument_def)

lemma bad2:
  assumes "instrument s \<noteq> None" "length (split_on (CHR '','') arg) \<noteq> 2"
  shows "require_instrument nd (try_except (and_then (unpack2 arg) f) (on_value_error message # hs)) s
     = said message s"
  using assms unpack2_bad [OF assms(2)] by (auto simp: require_instrument_Some try_value_error)

lemma bad3:
  assumes "instrument s \<noteq> None" "length (split_on (CHR '','') arg) \<noteq> 3"
  shows "require_instrument nd (try_except (and_then (unpack3 arg) f) (on_value_error message # hs)) s
     = said message s"
  using assms unpack3_bad [OF assms(2)] by (auto simp: require_instrument_Some try_value_error)

text \<open>
  C5. Each of the ten commands that unpack a composite argument under an
  \<open>except ValueError\<close> clause, called with a connection and a non-empty argument whose
  split on the comma does not give the required number of parts, returns after printing
  its "Invalid format" line; it makes no call on the VISA library and changes nothing
  else.
\<close>

theorem composite_argument_format_error:
  assumes "(do_cmd, n, message) \<in> set (composite_commands E)"
    and "instrument s \<noteq> None" and "arg \<noteq> []"
    and "length (split_on (CHR '','') arg) \<noteq> n"
  shows "do_cmd arg s = (Inr (), s\<lparr>printed := printed s @ [message]\<rparr>) \<and>
         calls (snd (do_cmd arg s)) = calls s"
proof -
  have "do_cmd arg s = said message s"
    using assms
    unfolding composite_commands_def
    by (auto simp: bad2 bad3 do_oscope_set_vertscale_def do_oscope_measure_param_def
        do_oscope_set_trigger_level_def do_oscope_set_trigger_slope_def do_afg_set_wave_def
        do_sa_set_rbw_vbw_def do_vna_set_sweep_def do_vna_measure_sparam_def
        do_vna_set_trace_def do_eload_set_transient_def)
  then show ?thesis by (simp add: said_def)
qed


theorem composite_argument_format_error_witness:
  "(do_vna_set_sweep example_env, 3,
      ''Invalid format. Use: <start_freq>,<stop_freq>,<points> (e.g., 1GHz,2GHz,201)'')
     \<in> set (composite_commands example_env) \<and>
   instrument connected \<noteq> None \<and>
   length (split_on (CHR '','') ''1GHz,2GHz'') \<noteq> 3 \<and>
   do_vna_set_sweep example_env ''1GHz,2GHz'' connected =
     (Inr (), connected\<lparr>printed :=
        [''Invalid format. Use: <start_freq>,<stop_freq>,<points> (e.g., 1GHz,2GHz,201)'']\<rparr>) \<and>
   calls (snd (do_vna_set_sweep example_env ''1GHz,2GHz'' connected)) = []"
proof -
  have m: "(do_vna_set_sweep example_env, 3,
      ''Invalid format. Use: <start_freq>,<stop_freq>,<points> (e.g., 1GHz,2GHz,201)'')
     \<in> set (composite_commands example_env)"
    by (simp add: composite_commands_def)
  have i: "instrument connected \<noteq> None" by (simp add: connected_def fresh_def)
  have a: "''1GHz,2GHz'' \<noteq> []" by simp
  have l: "length (split_on (CHR '','') ''1GHz,2GHz'') \<noteq> 3" by simp
  from composite_argument_format_error [OF m i a l] m i l
  show ?thesis by (simp add: connected_def fresh_def)
qed

text \<open>
  \<open>afg_psu_slew_set\<close> also unpacks into two parts when its argument has a comma, but
  under \<open>except Exception\<close> alone: a wrong number of parts is reported as a slew-rate
  error with the interpreter's text, again without a call on the VISA library.
\<close>

lemma afg_psu_slew_set_bad_split:
  assumes "instrument s \<noteq> None" and "CHR '','' \<in> set arg"
    and "length (split_on (CHR '','') arg) \<noteq> 2"
  shows "\<exists>m. do_afg_psu_slew_set E arg s =
           said (''Error setting slew rate. Command likely unsupported by instrument: '' @ m) s"
proof -
  from unpack2_bad [OF assms(3)] obtain m where m: "unpack2 arg = raise (ValueError m)" ..
  from assms(2) have ne: "arg \<noteq> []" by auto
  have "do_afg_psu_slew_set E arg s =
      said (''Error setting slew rate. Command likely unsupported by instrument: '' @ m) s"
    using assms(1,2) ne
    by (simp add: do_afg_psu_slew_set_def require_instrument_Some m try_except_def and_then_def
        raise_def on_exception_def said_def print_def)
  then show ?thesis ..
qed

section \<open>Screen capture\<close>

lemma split_on_length: "length (split_on sep s) = Suc (length (filter (\<lambda>c. c = sep) s))"
  by (induction s) (auto split: list.splits)

lemma split_on_no_sep: "sep \<notin> set s \<Longrightarrow> split_on sep s = [s]"
  by (induction s) auto

lemma last_split_on:
  "sep \<notin> set ext \<Longrightarrow> last (split_on sep (base @ sep # ext)) = ext"
proof (induction base)
  case Nil
  then show ?case by (simp add: split_on_no_sep)
next
  case (Cons c base)
  have "2 \<le> length (split_on sep (base @ sep # ext))"
    by (simp add: split_on_length)
  then obtain p q ps where ps: "split_on sep (base @ sep # ext) = p # q # ps"
    by (cases "split_on sep (base @ sep # ext)"; cases "tl (split_on sep (base @ sep # ext))") auto
  with Cons show ?case by auto
qed

lemma extension_of_dotted:
  "CHR ''.'' \<notin> set ext \<Longrightarrow> extension_of (base @ ''.'' @ ext) = upper ext"
  by (simp add: extension_of_def last_split_on)

text \<open>
  C7. With a connection and a non-empty file name, both screen-capture commands compare
  the upper-cased last dot-separated part of the stripped name (for a name with a dot,
  the text after its last dot) with PNG, JPEG and JPG. When it is none of them, they
  return after printing the unsupported-format line: no call on the VISA library, no
  file. When it is one of them and the instrument answers no bytes, they print the
  request line and the no-image-data error after the one binary read, and write no file.
\<close>

theorem screen_capture_rejects:
  assumes "instrument s = Some h" and "arg \<noteq> []"
  shows "(extension_of (strip arg) \<notin> set [''PNG'', ''JPEG'', ''JPG''] \<longrightarrow>
            do_oscope_screen_capture E arg s =
              (Inr (), s\<lparr>printed := printed s
                 @ [''Unsupported format for screen capture. Use PNG or JPEG/JPG.'']\<rparr>) \<and>
            do_rf_screen_capture E arg s =
              (Inr (), s\<lparr>printed := printed s
                 @ [''Unsupported format for screen capture. Use PNG or JPEG/JPG.'']\<rparr>)) \<and>
         (extension_of (strip arg) \<in> set [''PNG'', ''JPEG'', ''JPG''] \<and>
          on_query_binary_values E (calls s) h
            ('':DISPlay:DATA? '' @ extension_of (strip arg)) = Inr [] \<longrightarrow>
            do_oscope_screen_capture E arg s =
              (Inr (), s\<lparr>calls := calls s
                 @ [QueryBinaryValues h ('':DISPlay:DATA? '' @ extension_of (strip arg))],
                 printed := printed s
                 @ [''Requesting scope screen data ('' @ extension_of (strip arg) @ '')...'',
                    ''Error: Received no image data from the instrument.'']\<rparr>) \<and>
            do_rf_screen_capture E arg s =
              (Inr (), s\<lparr>calls := calls s
                 @ [QueryBinaryValues h ('':DISPlay:DATA? '' @ extension_of (strip arg))],
                 printed := printed s
                 @ [''Requesting screen data ('' @ extension_of (strip arg) @ '')...'',
                    ''Error: Received no image data from the instrument.'']\<rparr>)) \<and>
         (CHR ''.'' \<notin> set ext \<longrightarrow> extension_of (base @ ''.'' @ ext) = upper ext)"
proof (intro conjI impI)
  assume "extension_of (strip arg) \<notin> set [''PNG'', ''JPEG'', ''JPG'']"
  then show "do_oscope_screen_capture E arg s =
      (Inr (), s\<lparr>printed := printed s
         @ [''Unsupported format for screen capture. Use PNG or JPEG/JPG.'']\<rparr>)"
    and "do_rf_screen_capture E arg s =
      (Inr (), s\<lparr>printed := printed s
         @ [''Unsupported format for screen capture. Use PNG or JPEG/JPG.'']\<rparr>)"
    using assms
    by (simp_all add: do_oscope_screen_capture_def do_rf_screen_capture_def
        require_instrument_def Let_def try_except_def print_def)
next
  assume a: "extension_of (strip arg) \<in> set [''PNG'', ''JPEG'', ''JPG''] \<and>
      on_query_binary_values E (calls s) h
        ('':DISPlay:DATA? '' @ extension_of (strip arg)) = Inr []"
  then show "do_oscope_screen_capture E arg s =
      (Inr (), s\<lparr>calls := calls s
         @ [QueryBinaryValues h ('':DISPlay:DATA? '' @ extension_of (strip arg))],
         printed := printed s
         @ [''Requesting scope screen data ('' @ extension_of (strip arg) @ '')...'',
            ''Error: Received no image data from the instrument.'']\<rparr>)"
    using assms
    by (simp add: do_oscope_screen_capture_def require_instrument_def Let_def try_except_def
        print_def seq_def and_then_def instr_query_binary_values_def on_instrument_def)
  from a show "do_rf_screen_capture E arg s =
      (Inr (), s\<lparr>calls := calls s
         @ [QueryBinaryValues h ('':DISPlay:DATA? '' @ extension_of (strip arg))],
         printed := printed s
         @ [''Requesting screen data ('' @ extension_of (strip arg) @ '')...'',
            ''Error: Received no image data from the instrument.'']\<rparr>)"
    using assms
    by (simp add: do_rf_screen_capture_def require_instrument_def Let_def try_except_def
        print_def seq_def and_then_def instr_query_binary_values_def on_instrument_def)
next
  assume "CHR ''.'' \<notin> set ext"
  then show "extension_of (base @ ''.'' @ ext) = upper ext"
    by (rule extension_of_dotted)
qed

theorem screen_capture_rejects_witness:
  "instrument connected = Some 7 \<and>
   extension_of (strip ''shot.gif'') \<notin> set [''PNG'', ''JPEG'', ''JPG''] \<and>
   do_oscope_screen_capture example_env ''shot.gif'' connected =
     (Inr (), connected\<lparr>printed :=
        [''Unsupported format for screen capture. Use PNG or JPEG/JPG.'']\<rparr>) \<and>
   do_rf_screen_capture example_env ''shot.gif'' connected =
     (Inr (), connected\<lparr>printed :=
        [''Unsupported format for screen capture. Use PNG or JPEG/JPG.'']\<rparr>) \<and>
   extension_of (strip ''shot.Png'') = ''PNG'' \<and>
   do_rf_screen_capture example_env ''shot.Png'' connected =
     (Inr (), connected\<lparr>calls := [QueryBinaryValues 7 '':DISPlay:DATA? PNG''],
        printed := [''Requesting screen data (PNG)...'',
                    ''Error: Received no image data from the instrument.'']\<rparr>)"
proof -
  have i: "instrument connected = Some 7" by (simp add: connected_def fresh_def)
  have g: "extension_of (strip ''shot.gif'') = ''GIF''"
    by (simp add: extension_of_def strip_def isspace_def upper_def to_upper_def
        small_letters_def capital_letters_def)
  have p: "extension_of (strip ''shot.Png'') = ''PNG''"
    by (simp add: extension_of_def strip_def isspace_def upper_def to_upper_def
        small_letters_def capital_letters_def)
  have r: "on_query_binary_values example_env (calls connected) 7
      ('':DISPlay:DATA? '' @ extension_of (strip ''shot.Png'')) = Inr []"
    by (simp add: example_env_def)
  have a: "''shot.gif'' \<noteq> []" and b: "''shot.Png'' \<noteq> []" by simp_all
  from screen_capture_rejects [OF i a, of example_env]
       screen_capture_rejects [OF i b, of example_env] g p r i
  show ?thesis by (simp add: connected_def fresh_def)
qed

section \<open>Waveform capture on bad input\<close>

lemma floats_of_Inl: "floats_of F parts = Inl e \<Longrightarrow> \<exists>t. e = ValueError t"
  by (induction parts arbitrary: e) (auto split: option.splits sum.splits)

lemma floats_of_Inr:
  "floats_of F parts = Inr xs \<Longrightarrow> \<forall>part \<in> set parts. float_of_str F part \<noteq> None"
  by (induction parts arbitrary: xs) (auto split: option.splits sum.splits)

lemma floats_of_fails:
  assumes "\<exists>part \<in> set parts. float_of_str F part = None"
  shows "\<exists>t. floats_of F parts = Inl (ValueError t)"
proof (cases "floats_of F parts")
  case (Inl e)
  with floats_of_Inl [OF Inl] show ?thesis by auto
next
  case (Inr xs)
  with floats_of_Inr [OF Inr] assms show ?thesis by auto
qed

lemma floats_of_length: "floats_of F parts = Inr xs \<Longrightarrow> length xs = length parts"
  by (induction parts arbitrary: xs) (auto split: option.splits sum.splits)

lemma and_then_lift_Inr: "and_then (lift (Inr x)) f s = f x s"
  by (simp add: and_then_def lift_def)

lemma and_then_lift_Inl: "and_then (lift (Inl e)) f s = (Inl e, s)"
  by (simp add: and_then_def lift_def)

lemma and_then_query:
  "instrument s = Some h \<Longrightarrow> on_query E (calls s) h m = Inr x \<Longrightarrow>
   and_then (instr_query E m) f s = f x (s\<lparr>calls := calls s @ [Query h m]\<rparr>)"
  by (simp add: and_then_def instr_query_def on_instrument_def)

lemma seq_write:
  "instrument s = Some h \<Longrightarrow> on_write E (calls s) h m = Inr () \<Longrightarrow>
   seq (instr_write E m) n s = n (s\<lparr>calls := calls s @ [Write h m]\<rparr>)"
  by (simp add: seq_def and_then_def instr_write_def on_instrument_def)

lemma short_preamble:
  "length preamble < 9 \<Longrightarrow>
   and_then (lift (py_index preamble 5)) (\<lambda>X.
   and_then (lift (py_index preamble 7)) (\<lambda>Y.
   and_then (lift (py_index preamble 8)) (\<lambda>R. k X Y R))) s =
     (Inl (IndexError ''list index out of range''), s)"
  by (simp add: py_index_def and_then_def lift_def)

lemma long_preamble:
  "9 \<le> length preamble \<Longrightarrow>
   and_then (lift (py_index preamble 5)) (\<lambda>X.
   and_then (lift (py_index preamble 7)) (\<lambda>Y.
   and_then (lift (py_index preamble 8)) (\<lambda>R. k X Y R))) s =
     k (preamble ! 5) (preamble ! 7) (preamble ! 8) s"
  by (simp add: py_index_def and_then_def lift_def)

lemma try_except_Inl:
  "body s = (Inl e, s') \<Longrightarrow> try_except body hs s = handle_with hs e s'"
  by (simp add: try_except_def)

lemma capture_data_unfold:
  assumes "instrument s = Some h" and "arg \<noteq> []"
    and "extension_of (strip arg) \<in> set [''CSV'', ''TXT'']"
  shows "do_oscope_capture_data E arg s =
     try_except
       (and_then (instr_query E '':WAVeform:PREamble?'') (\<lambda>preamble_str.
        and_then (lift (parse_floats (floats E) preamble_str)) (\<lambda>preamble.
        and_then (lift (py_index preamble 5)) (\<lambda>X_INCrement.
        and_then (lift (py_index preamble 7)) (\<lambda>Y_INCrement.
        and_then (lift (py_index preamble 8)) (\<lambda>Y_Reference.
        seq (instr_write E '':WAVeform:FORMat ASCii'')
       (and_then (instr_query E '':WAVeform:DATA?'') (\<lambda>raw_data_str.
        and_then (lift (parse_floats (floats E) raw_data_str)) (\<lambda>raw_data.
        seq (if extension_of (strip arg) = ''CSV''
             then write_file E (strip arg)
                    (csv_content (floats E)
                       (process_data (floats E) X_INCrement Y_INCrement Y_Reference 0 raw_data []))
             else if extension_of (strip arg) = ''TXT''
             then write_file E (strip arg)
                    (txt_content
                       (process_data (floats E) X_INCrement Y_INCrement Y_Reference 0 raw_data []))
             else pure ())
            (print (''Waveform data successfully processed and saved to: ''
                    @ strip arg @ '' ('' @ str_nat (length raw_data) @ '' points).'')))))))))))
       [(ClsVisaIOError, \<lambda>e.
           seq (print (''Error communicating with instrument: '' @ exn_msg e))
               (print ''HINT: Ensure the instrument is ready and the waveform source is set.'')),
        on_exception ''An unexpected error occurred during data processing: ''] s"
proof -
  have i: "(instrument s = None) = False" using assms(1) by simp
  have a: "(arg = []) = False" using assms(2) by simp
  have x: "(extension_of (strip arg) \<notin> set [''CSV'', ''TXT'']) = False" using assms(3) by blast
  show ?thesis
    unfolding do_oscope_capture_data_def require_instrument_def Let_def i a x if_False ..
qed


lemma capture_data_short_preamble:
  assumes "instrument s = Some h" and "arg \<noteq> []"
    and "extension_of (strip arg) \<in> set [''CSV'', ''TXT'']"
    and "on_query E (calls s) h '':WAVeform:PREamble?'' = Inr preamble_str"
    and "parse_floats (floats E) preamble_str = Inr preamble"
    and short9: "length preamble < 9"
  shows "do_oscope_capture_data E arg s =
      (Inr (), s\<lparr>calls := calls s @ [Query h '':WAVeform:PREamble?''],
         printed := printed s
         @ [''An unexpected error occurred during data processing: ''
            @ ''list index out of range'']\<rparr>)"
proof -
  let ?s1 = "s\<lparr>calls := calls s @ [Query h '':WAVeform:PREamble?'']\<rparr>"
  have body: "(and_then (instr_query E '':WAVeform:PREamble?'') (\<lambda>preamble_str.
        and_then (lift (parse_floats (floats E) preamble_str)) (\<lambda>preamble.
        and_then (lift (py_index preamble 5)) (\<lambda>X_INCrement.
        and_then (lift (py_index preamble 7)) (\<lambda>Y_INCrement.
        and_then (lift (py_index preamble 8)) (\<lambda>Y_Reference. k X_INCrement Y_INCrement Y_Reference)))))) s
      = (Inl (IndexError ''list index out of range''), ?s1)" for k :: "pyfloat \<Rightarrow> pyfloat \<Rightarrow> pyfloat \<Rightarrow> unit py"
    by (simp only: and_then_query [OF assms(1,4)] assms(5) and_then_lift_Inr short_preamble [OF short9])
  show ?thesis
    unfolding capture_data_unfold [OF assms(1,2,3)] try_except_def
    apply (simp only: body)
    apply (simp add: on_exception_def print_def)
    done
qed

lemma capture_data_bad_samples:
  assumes "instrument s = Some h" and "arg \<noteq> []"
    and "extension_of (strip arg) \<in> set [''CSV'', ''TXT'']"
    and "on_query E (calls s) h '':WAVeform:PREamble?'' = Inr preamble_str"
    and "parse_floats (floats E) preamble_str = Inr preamble"
    and long9: "9 \<le> length preamble"
    and w: "on_write E (calls s @ [Query h '':WAVeform:PREamble?'']) h
        '':WAVeform:FORMat ASCii'' = Inr ()"
    and d: "on_query E (calls s @ [Query h '':WAVeform:PREamble?'',
        Write h '':WAVeform:FORMat ASCii'']) h '':WAVeform:DATA?'' = Inr raw_data_str"
    and t: "parse_floats (floats E) raw_data_str = Inl (ValueError t)"
  shows "do_oscope_capture_data E arg s =
      (Inr (), s\<lparr>calls := calls s @ [Query h '':WAVeform:PREamble?'',
           Write h '':WAVeform:FORMat ASCii'', Query h '':WAVeform:DATA?''],
         printed := printed s
         @ [''An unexpected error occurred during data processing: '' @ t]\<rparr>)"
proof -
  let ?P = "'':WAVeform:PREamble?''"
  let ?W = "'':WAVeform:FORMat ASCii''"
  let ?D = "'':WAVeform:DATA?''"
  let ?s1 = "s\<lparr>calls := calls s @ [Query h ?P]\<rparr>"
  let ?s2 = "s\<lparr>calls := calls s @ [Query h ?P, Write h ?W]\<rparr>"
  let ?s3 = "s\<lparr>calls := calls s @ [Query h ?P, Write h ?W, Query h ?D]\<rparr>"
  have i1: "instrument ?s1 = Some h" and i2: "instrument ?s2 = Some h"
    using assms(1) by simp_all
  have w1: "on_write E (calls ?s1) h ?W = Inr ()" using w by simp
  have d2: "on_query E (calls ?s2) h ?D = Inr raw_data_str" using d by simp
  have s12: "?s1\<lparr>calls := calls ?s1 @ [Write h ?W]\<rparr> = ?s2" by simp
  have s23: "?s2\<lparr>calls := calls ?s2 @ [Query h ?D]\<rparr> = ?s3" by simp
  have body: "(and_then (instr_query E ?P) (\<lambda>preamble_str.
        and_then (lift (parse_floats (floats E) preamble_str)) (\<lambda>preamble.
        and_then (lift (py_index preamble 5)) (\<lambda>X_INCrement.
        and_then (lift (py_index preamble 7)) (\<lambda>Y_INCrement.
        and_then (lift (py_index preamble 8)) (\<lambda>Y_Reference.
        seq (instr_write E ?W)
       (and_then (instr_query E ?D) (\<lambda>raw_data_str.
        and_then (lift (parse_floats (floats E) raw_data_str)) (\<lambda>raw_data.
          k X_INCrement Y_INCrement Y_Reference raw_data))))))))) s
      = (Inl (ValueError t), ?s3)"
    for k :: "pyfloat \<Rightarrow> pyfloat \<Rightarrow> pyfloat \<Rightarrow> pyfloat list \<Rightarrow> unit py"
    by (simp only: and_then_query [OF assms(1,4)] assms(5) and_then_lift_Inr
        long_preamble [OF long9] seq_write [OF i1 w1] s12 and_then_query [OF i2 d2] s23 t
        and_then_lift_Inl)
  show ?thesis
    unfolding capture_data_unfold [OF assms(1,2,3)] try_except_def
    apply (simp only: body)
    apply (simp add: on_exception_def print_def)
    done
qed

text \<open>
  C6. With a connection and a \<open>.csv\<close> or \<open>.txt\<close> name, when the preamble answer parses
  to fewer than 9 floats the command returns after the one query, printing the
  data-processing error with the IndexError's text; when the preamble is long enough and
  a part of the raw-sample answer is rejected by \<open>float\<close>, it returns after the query,
  the write and the second query, printing the data-processing error with the
  ValueError's text. In both cases no exception leaves the command and no file is
  written.
\<close>

theorem capture_data_rejects:
  assumes "instrument s = Some h" and "arg \<noteq> []"
    and "extension_of (strip arg) \<in> set [''CSV'', ''TXT'']"
    and "on_query E (calls s) h '':WAVeform:PREamble?'' = Inr preamble_str"
    and "parse_floats (floats E) preamble_str = Inr preamble"
  shows "(length preamble < 9 \<longrightarrow>
            do_oscope_capture_data E arg s =
              (Inr (), s\<lparr>calls := calls s @ [Query h '':WAVeform:PREamble?''],
                 printed := printed s
                 @ [''An unexpected error occurred during data processing: ''
                    @ ''list index out of range'']\<rparr>)) \<and>
         (9 \<le> length preamble \<and>
          on_write E (calls s @ [Query h '':WAVeform:PREamble?'']) h
            '':WAVeform:FORMat ASCii'' = Inr () \<and>
          on_query E (calls s @ [Query h '':WAVeform:PREamble?'',
            Write h '':WAVeform:FORMat ASCii'']) h '':WAVeform:DATA?'' = Inr raw_data_str \<and>
          (\<exists>part \<in> set (split_on (CHR '','') (strip raw_data_str)).
             float_of_str (floats E) part = None) \<longrightarrow>
            (\<exists>t. do_oscope_capture_data E arg s =
              (Inr (), s\<lparr>calls := calls s @ [Query h '':WAVeform:PREamble?'',
                   Write h '':WAVeform:FORMat ASCii'', Query h '':WAVeform:DATA?''],
                 printed := printed s
                 @ [''An unexpected error occurred during data processing: '' @ t]\<rparr>)))"
proof (intro conjI impI)
  assume "length preamble < 9"
  from capture_data_short_preamble [OF assms this]
  show "do_oscope_capture_data E arg s =
      (Inr (), s\<lparr>calls := calls s @ [Query h '':WAVeform:PREamble?''],
         printed := printed s
         @ [''An unexpected error occurred during data processing: ''
            @ ''list index out of range'']\<rparr>)" .
next
  assume a: "9 \<le> length preamble \<and>
      on_write E (calls s @ [Query h '':WAVeform:PREamble?'']) h
        '':WAVeform:FORMat ASCii'' = Inr () \<and>
      on_query E (calls s @ [Query h '':WAVeform:PREamble?'',
        Write h '':WAVeform:FORMat ASCii'']) h '':WAVeform:DATA?'' = Inr raw_data_str \<and>
      (\<exists>part \<in> set (split_on (CHR '','') (strip raw_data_str)).
         float_of_str (floats E) part = None)"
  then obtain t where t: "parse_floats (floats E) raw_data_str = Inl (ValueError t)"
    using floats_of_fails [of "split_on (CHR '','') (strip raw_data_str)" "floats E"]
    by (auto simp: parse_floats_def)
  from a have l: "9 \<le> length preamble"
    and w: "on_write E (calls s @ [Query h '':WAVeform:PREamble?'']) h
        '':WAVeform:FORMat ASCii'' = Inr ()"
    and d: "on_query E (calls s @ [Query h '':WAVeform:PREamble?'',
        Write h '':WAVeform:FORMat ASCii'']) h '':WAVeform:DATA?'' = Inr raw_data_str"
    by simp_all
  from capture_data_bad_samples [OF assms l w d t]
  show "\<exists>t. do_oscope_capture_data E arg s =
      (Inr (), s\<lparr>calls := calls s @ [Query h '':WAVeform:PREamble?'',
           Write h '':WAVeform:FORMat ASCii'', Query h '':WAVeform:DATA?''],
         printed := printed s
         @ [''An unexpected error occurred during data processing: '' @ t]\<rparr>)"
    by auto
qed

theorem capture_data_rejects_witness:
  "instrument connected = Some 7 \<and>
   extension_of (strip ''wave.csv'') \<in> set [''CSV'', ''TXT''] \<and>
   on_query example_env (calls connected) 7 '':WAVeform:PREamble?'' = Inr ''1,1,1'' \<and>
   parse_floats (floats example_env) ''1,1,1'' = Inr [Fin 1, Fin 1, Fin 1] \<and>
   length [Fin 1, Fin 1, Fin 1 :: pyfloat] < 9 \<and>
   do_oscope_capture_data example_env ''wave.csv'' connected =
     (Inr (), connected\<lparr>calls := [Query 7 '':WAVeform:PREamble?''],
        printed := [''An unexpected error occurred during data processing: ''
                    @ ''list index out of range'']\<rparr>) \<and>
   files (snd (do_oscope_capture_data example_env ''wave.csv'' connected)) = []"
proof -
  have i: "instrument connected = Some 7" by (simp add: connected_def fresh_def)
  have a: "''wave.csv'' \<noteq> []" by simp
  have x: "extension_of (strip ''wave.csv'') \<in> set [''CSV'', ''TXT'']"
    by (simp add: extension_of_def strip_def isspace_def upper_def to_upper_def
        small_letters_def capital_letters_def)
  have q: "on_query example_env (calls connected) 7 '':WAVeform:PREamble?'' = Inr ''1,1,1''"
    by (simp add: example_env_def)
  have p: "parse_floats (floats example_env) ''1,1,1'' = Inr [Fin 1, Fin 1, Fin 1]"
    by (simp add: parse_floats_def example_env_def strip_def isspace_def)
  have l: "length [Fin 1, Fin 1, Fin 1 :: pyfloat] < 9" by simp
  from capture_data_rejects [OF i a x q p] l i x q p
  show ?thesis by (simp add: connected_def fresh_def)
qed

end
